theory Spec2Isabelle
  imports Complex_Main
begin

section \<open>Errors and array primitives\<close>

text \<open>
  The notebook computes with Python floats and numpy arrays. Numbers are modelled as
  \<^typ>\<open>real\<close> (rounding is not modelled), a one-dimensional array as a list, a
  two-dimensional array as the list of its rows. Every exception the interpreter or a
  library can raise is a value of \<open>error\<close>; \<open>LibraryError k\<close> stands for any exception of
  a library call that is a parameter of the model.
\<close>

datatype error = IndexError | ValueError | AxisError | RuntimeError | LibraryError nat

definition bind :: "error + 'a \<Rightarrow> ('a \<Rightarrow> error + 'b) \<Rightarrow> error + 'b" where
  "bind m f = (case m of Inl e \<Rightarrow> Inl e | Inr v \<Rightarrow> f v)"

text \<open>\<open>x[i]\<close> for a non-negative literal index: out of range raises IndexError.\<close>

definition getitem :: "'a list \<Rightarrow> nat \<Rightarrow> error + 'a" where
  "getitem xs i = (if i < length xs then Inr (xs ! i) else Inl IndexError)"

section \<open>The van der Pol right-hand side\<close>

text \<open>
  \<^verbatim>\<open>
  def van_der_pol_dynamics(t, x):
      mu = 0.1
      dx1 = x[1]
      dx2 = mu * (1 - x[0] ** 2) * x[1] - x[0]
      return [dx1, dx2]
  \<close>
  The reads happen in the order \<open>x[1]\<close>, \<open>x[0]\<close>, \<open>x[1]\<close>, \<open>x[0]\<close>.
\<close>

definition van_der_pol_dynamics :: "real \<Rightarrow> real list \<Rightarrow> error + real list" where
  "van_der_pol_dynamics t x =
     (let mu = 0.1 in
      bind (getitem x 1) (\<lambda>dx1.
      bind (getitem x 0) (\<lambda>a.
      bind (getitem x 1) (\<lambda>b.
      bind (getitem x 0) (\<lambda>c.
      (let dx2 = mu * (1 - a ^ 2) * b - c in
       Inr [dx1, dx2]))))))"

section \<open>The flow field\<close>

text \<open>
  \<open>np.linspace(start, stop, num)\<close> with the default \<open>endpoint=True\<close>: \<open>num\<close> samples
  \<open>arange(num) * step + start\<close> with \<open>step = (stop - start) / (num - 1)\<close>, the last one
  overwritten by \<open>stop\<close>; a negative \<open>num\<close> raises ValueError.
\<close>

definition linspace :: "real \<Rightarrow> real \<Rightarrow> int \<Rightarrow> error + real list" where
  "linspace start stop num =
     (if num < 0 then Inl ValueError
      else
        (let n = nat num;
             dv = n - 1;
             delta = stop - start;
             y = (if dv > 0 then map (\<lambda>i. real i * (delta / real dv) + start) [0..<n]
                  else map (\<lambda>i. real i * delta + start) [0..<n])
         in Inr (if n > 1 then y[n - 1 := stop] else y)))"

text \<open>
  \<open>np.meshgrid(x1, x2)\<close> with the default \<open>indexing='xy'\<close>: both results have
  \<open>len(x2)\<close> rows and \<open>len(x1)\<close> columns, \<open>X1[i][j] = x1[j]\<close> and \<open>X2[i][j] = x2[i]\<close>.
\<close>

definition meshgrid :: "real list \<Rightarrow> real list \<Rightarrow> real list list \<times> real list list" where
  "meshgrid x1 x2 = (replicate (length x2) x1, map (\<lambda>v. replicate (length x1) v) x2)"

text \<open>A scalar function applied to every element of a two-dimensional array.\<close>

definition arr_map :: "(real \<Rightarrow> real) \<Rightarrow> real list list \<Rightarrow> real list list" where
  "arr_map f A = map (map f) A"

definition same_shape :: "real list list \<Rightarrow> real list list \<Rightarrow> bool" where
  "same_shape A B = (map length A = map length B)"

text \<open>
  An elementwise binary operator on two arrays of one shape. numpy also broadcasts
  axes of size one; the notebook only combines the two results of one \<open>meshgrid\<close>
  call, so any other pair of shapes is the ValueError numpy raises on shapes that
  do not fit.
\<close>

definition arr_zip ::
  "(real \<Rightarrow> real \<Rightarrow> real) \<Rightarrow> real list list \<Rightarrow> real list list \<Rightarrow> error + real list list" where
  "arr_zip f A B =
     (if same_shape A B then Inr (map2 (\<lambda>a b. map2 f a b) A B) else Inl ValueError)"

text \<open>
  \<^verbatim>\<open>
  def plot_flow_field():
      x1 = np.linspace(-5, 5, 20)
      x2 = np.linspace(-5, 5, 20)
      X1, X2 = np.meshgrid(x1, x2)

      mu = 0.1
      dx1 = X2
      dx2 = mu * (1-X1**2) * X2 - X1

      fig = plt.figure(figsize=(4, 4))
      plt.streamplot(X1, X2, dx1, dx2, density=1)
  \<close>
  \<open>flow_field\<close> is the numeric part (down to \<open>dx2\<close>); \<open>plot_flow_field\<close> hands its
  four arrays to the plotting library, whose two calls are parameters acting on the
  state \<open>'p\<close> of the figure manager.
\<close>

definition flow_field ::
  "error + (real list list \<times> real list list \<times> real list list \<times> real list list)" where
  "flow_field =
     bind (linspace (-5) 5 20) (\<lambda>x1.
     bind (linspace (-5) 5 20) (\<lambda>x2.
     (case meshgrid x1 x2 of (X1, X2) \<Rightarrow>
       (let mu = 0.1;
            dx1 = X2
        in bind (arr_zip (*) (arr_map (\<lambda>v. mu * v) (arr_map (\<lambda>v. 1 - v) (arr_map (\<lambda>v. v ^ 2) X1))) X2) (\<lambda>m.
           bind (arr_zip (-) m X1) (\<lambda>dx2.
           Inr (X1, X2, dx1, dx2)))))))"

record 'p pyplot =
  figure :: "real \<times> real \<Rightarrow> 'p \<Rightarrow> error + 'p"
  streamplot ::
    "real list list \<Rightarrow> real list list \<Rightarrow> real list list \<Rightarrow> real list list \<Rightarrow> real \<Rightarrow> 'p
       \<Rightarrow> error + 'p"

definition plot_flow_field :: "'p pyplot \<Rightarrow> 'p \<Rightarrow> error + 'p" where
  "plot_flow_field plt p =
     bind flow_field (\<lambda>(X1, X2, dx1, dx2).
     bind (figure plt (4, 4) p) (\<lambda>p'.
     streamplot plt X1 X2 dx1 dx2 1 p'))"

section \<open>Random trajectories\<close>

text \<open>
  \<open>np.interp(x, xp, fp)\<close>: piecewise linear interpolation through the points
  \<open>(xp[j], fp[j])\<close>, constant outside \<open>[xp[0], xp[-1]]\<close>. It raises ValueError when
  \<open>xp\<close> is empty or \<open>fp\<close> has another length, and returns one value per element of
  \<open>x\<close>. numpy finds the interval by bisection and does not check that \<open>xp\<close> increases;
  the scan below finds the same interval whenever \<open>xp\<close> increases.
\<close>

fun interp_scan :: "(real \<times> real) list \<Rightarrow> real \<Rightarrow> real" where
  "interp_scan [] x = 0"
| "interp_scan [(a, fa)] x = fa"
| "interp_scan ((a, fa) # (b, fb) # ps) x =
     (if x < b then (if a = x then fa else (fb - fa) / (b - a) * (x - a) + fa)
      else interp_scan ((b, fb) # ps) x)"

definition interp_at :: "real list \<Rightarrow> real list \<Rightarrow> real \<Rightarrow> real" where
  "interp_at xp fp x = (if x < hd xp then hd fp else interp_scan (zip xp fp) x)"

definition interp :: "real list \<Rightarrow> real list \<Rightarrow> real list \<Rightarrow> error + real list" where
  "interp x xp fp =
     (if xp = [] then Inl ValueError
      else if length fp \<noteq> length xp then Inl ValueError
      else Inr (map (interp_at xp fp) x))"

text \<open>\<open>int(r)\<close> on a float truncates towards zero.\<close>

definition py_int :: "real \<Rightarrow> int" where
  "py_int r = (if r \<ge> 0 then \<lfloor>r\<rfloor> else \<lceil>r\<rceil>)"

text \<open>\<open>np.zeros((m, n))\<close> and \<open>np.zeros_like(A)\<close>.\<close>

definition zeros :: "nat \<Rightarrow> nat \<Rightarrow> real list list" where
  "zeros m n = replicate m (replicate n 0)"

definition zeros_like :: "real list list \<Rightarrow> real list list" where
  "zeros_like A = map (\<lambda>r. replicate (length r) 0) A"

text \<open>
  \<open>A[i,:] = v\<close>: the row is replaced when \<open>v\<close> has the row's length, filled with the
  one element of \<open>v\<close> when \<open>v\<close> has length one, and the assignment raises ValueError
  otherwise.
\<close>

definition set_row :: "real list list \<Rightarrow> nat \<Rightarrow> real list \<Rightarrow> error + real list list" where
  "set_row A i v =
     (if length A \<le> i then Inl IndexError
      else if length v = length (A ! i) then Inr (A[i := v])
      else if length v = 1 then Inr (A[i := replicate (length (A ! i)) (hd v)])
      else Inl ValueError)"

text \<open>\<open>A[:,j]\<close> reads the column \<open>j\<close>; \<open>A[:,j] = v\<close> writes it.\<close>

definition get_column :: "real list list \<Rightarrow> nat \<Rightarrow> error + real list" where
  "get_column A j =
     (if \<exists>r \<in> set A. length r \<le> j then Inl IndexError else Inr (map (\<lambda>r. r ! j) A))"

definition set_column :: "real list list \<Rightarrow> nat \<Rightarrow> real list \<Rightarrow> error + real list list" where
  "set_column A j v =
     (if \<exists>r \<in> set A. length r \<le> j then Inl IndexError
      else if length v = length A then Inr (map2 (\<lambda>r a. r[j := a]) A v)
      else if length v = 1 then Inr (map (\<lambda>r. r[j := hd v]) A)
      else Inl ValueError)"

text \<open>
  The result of \<open>scipy.integrate.solve_ivp\<close> as far as the notebook reads it: the time
  points \<open>t\<close> and the states \<open>y\<close>, one row per state variable. The solver itself is a
  parameter: it receives the right-hand side, the time span, the initial state and
  \<open>max_step\<close>.
\<close>

record ode_result =
  sol_t :: "real list"
  sol_y :: "real list list"

type_synonym solver =
  "(real \<Rightarrow> real list \<Rightarrow> error + real list) \<Rightarrow> real \<times> real \<Rightarrow> real list \<Rightarrow> real
     \<Rightarrow> error + ode_result"

text \<open>
  \<open>np.random.rand(k)\<close>: the generator is a fixed sequence \<open>u\<close> of samples and the
  number \<open>g\<close> of samples already drawn; a call returns the next \<open>k\<close> of them.
\<close>

definition rand :: "(nat \<Rightarrow> real) \<Rightarrow> nat \<Rightarrow> nat \<Rightarrow> real list \<times> nat" where
  "rand u k g = (map u [g..<g + k], g + k)"

text \<open>
  \<^verbatim>\<open>
  def get_random_trajectory():
      dt = .1
      T = 2
      x0 = -5 + 10*np.random.rand(2)
      solution = solve_ivp(van_der_pol_dynamics, [0, T], x0, max_step=dt)
      times = np.linspace(0, T, int(T/dt)+1)
      trajectory = np.zeros((2,len(times)))
      trajectory[0,:] = np.interp(times, solution.t, solution.y[0,:])
      trajectory[1,:] = np.interp(times, solution.t, solution.y[1,:])
      return trajectory
  \<close>
\<close>

definition get_random_trajectory ::
  "solver \<Rightarrow> (nat \<Rightarrow> real) \<Rightarrow> nat \<Rightarrow> error + (real list list \<times> nat)" where
  "get_random_trajectory solve_ivp u g =
     (let dt = 0.1;
          T = 2
      in case rand u 2 g of (r, g') \<Rightarrow>
        (let x0 = map (\<lambda>v. - 5 + 10 * v) r in
         bind (solve_ivp van_der_pol_dynamics (0, T) x0 dt) (\<lambda>solution.
         bind (linspace 0 T (py_int (T / dt) + 1)) (\<lambda>times.
         (let trajectory = zeros 2 (length times) in
          bind (getitem (sol_y solution) 0) (\<lambda>y0.
          bind (interp times (sol_t solution) y0) (\<lambda>v0.
          bind (set_row trajectory 0 v0) (\<lambda>trajectory.
          bind (getitem (sol_y solution) 1) (\<lambda>y1.
          bind (interp times (sol_t solution) y1) (\<lambda>v1.
          bind (set_row trajectory 1 v1) (\<lambda>trajectory.
          Inr (trajectory, g'))))))))))))"

section \<open>Minibatches\<close>

text \<open>
  \<open>np.array\<close> applied to a Python list of two-dimensional arrays: the empty list gives
  a one-dimensional array of length zero, arrays of one common shape are stacked along
  a new first axis, and arrays of different shapes raise ValueError.
\<close>

datatype ndarray = Arr1 "real list" | Arr3 "real list list list"

definition np_array :: "real list list list \<Rightarrow> error + ndarray" where
  "np_array as =
     (case as of
        [] \<Rightarrow> Inr (Arr1 [])
      | a # rest \<Rightarrow>
          if (\<forall>b \<in> set as. map length b = map length a) \<and>
             (\<forall>r \<in> set a. length r = length (hd a))
          then Inr (Arr3 as) else Inl ValueError)"

text \<open>
  \<open>a.swapaxes(0, 1)\<close>: a one-dimensional array has no axis 1; on three dimensions the
  first two indices change places.
\<close>

definition swapaxes01 :: "ndarray \<Rightarrow> error + ndarray" where
  "swapaxes01 a =
     (case a of
        Arr1 xs \<Rightarrow> Inl AxisError
      | Arr3 as \<Rightarrow> Inr (Arr3 (transpose as)))"

text \<open>
  The extents of an array. Nested lists do not record the extents behind an empty
  axis; they are reported as zero.
\<close>

definition shape :: "ndarray \<Rightarrow> nat list" where
  "shape a =
     (case a of
        Arr1 xs \<Rightarrow> [length xs]
      | Arr3 as \<Rightarrow>
          [length as,
           (case as of [] \<Rightarrow> 0 | m # _ \<Rightarrow> length m),
           (case as of [] \<Rightarrow> 0 | m # _ \<Rightarrow> (case m of [] \<Rightarrow> 0 | r # _ \<Rightarrow> length r))])"

text \<open>\<open>torch.Tensor(a)\<close> keeps shape and elements (the conversion to single precision is not modelled).\<close>

definition torch_Tensor :: "ndarray \<Rightarrow> ndarray" where
  "torch_Tensor a = a"

text \<open>
  \<^verbatim>\<open>
  def get_minibatch(n):
      inputs = []
      trajectories = []
      for i in range(n):
          trajectory = get_random_trajectory()
          x0 = trajectory[:, 0]
          input = np.zeros_like(trajectory)
          input[:,0] = x0
          inputs.append(input.T)
          trajectories.append(trajectory.T)
      inputs = np.array(inputs).swapaxes(0, 1) # axis order: [sequence, minibatch, elements]
      trajectories = np.array(trajectories).swapaxes(0, 1)
      return torch.Tensor(inputs), torch.Tensor(trajectories)
  \<close>
  \<open>minibatch_loop\<close> is the \<open>for\<close> loop with the number of iterations still to run.
\<close>

fun minibatch_loop ::
  "solver \<Rightarrow> (nat \<Rightarrow> real) \<Rightarrow> nat \<Rightarrow> real list list list \<times> real list list list \<times> nat
     \<Rightarrow> error + (real list list list \<times> real list list list \<times> nat)" where
  "minibatch_loop solve_ivp u 0 (inputs, trajectories, g) = Inr (inputs, trajectories, g)"
| "minibatch_loop solve_ivp u (Suc k) (inputs, trajectories, g) =
     bind (get_random_trajectory solve_ivp u g) (\<lambda>(trajectory, g').
     bind (get_column trajectory 0) (\<lambda>x0.
     (let input = zeros_like trajectory in
      bind (set_column input 0 x0) (\<lambda>input.
      minibatch_loop solve_ivp u k
        (inputs @ [transpose input], trajectories @ [transpose trajectory], g')))))"

definition get_minibatch ::
  "solver \<Rightarrow> (nat \<Rightarrow> real) \<Rightarrow> int \<Rightarrow> nat \<Rightarrow> error + ((ndarray \<times> ndarray) \<times> nat)" where
  "get_minibatch solve_ivp u n g =
     bind (minibatch_loop solve_ivp u (nat n) ([], [], g)) (\<lambda>(inputs, trajectories, g').
     bind (np_array inputs) (\<lambda>a.
     bind (swapaxes01 a) (\<lambda>inputs.
     bind (np_array trajectories) (\<lambda>b.
     bind (swapaxes01 b) (\<lambda>trajectories.
     Inr ((torch_Tensor inputs, torch_Tensor trajectories), g'))))))"

section \<open>The training loop\<close>

text \<open>
  \<^verbatim>\<open>
  running_loss = 0
  for sample in range(2000):
      model.zero_grad()

      initial_conditions, trajectories = get_minibatch(20)

      #TODO: run the model and calculate the loss (use the variable name "loss")

      loss.backward()

      # calculate and periodically loss that is smoothed over time
      running_loss = .9*running_loss + .1*loss.item()
      if sample % 50 == 49:
          print('Batch #{}  Loss {}'.format(sample+1, running_loss))
      optimizer.step()
  \<close>
  The calls into the deep-learning library are parameters. They act on a state \<open>'m\<close>
  (the network's weights and gradients and the optimizer's state) and on loss tensors
  \<open>'l\<close>, and each of them can raise. The line the notebook leaves to the reader,
  running the model and computing the loss, is the parameter \<open>run_model\<close>.
\<close>

record ('m, 'l) torch =
  zero_grad :: "'m \<Rightarrow> error + 'm"
  run_model :: "'m \<Rightarrow> ndarray \<Rightarrow> ndarray \<Rightarrow> error + ('l \<times> 'm)"
  backward :: "'l \<Rightarrow> 'm \<Rightarrow> error + 'm"
  item :: "'l \<Rightarrow> error + real"
  optimizer_step :: "'m \<Rightarrow> error + 'm"

text \<open>What the loop does that can be seen from outside, in the order it happens.\<close>

datatype event =
  ZeroGrad | GetMinibatch int | RunModel | Backward | Print nat real | OptimizerStep

record 'm training =
  net :: 'm
  running_loss :: real
  generator :: nat
  events :: "event list"

definition training_step ::
  "('m, 'l) torch \<Rightarrow> solver \<Rightarrow> (nat \<Rightarrow> real) \<Rightarrow> nat \<Rightarrow> 'm training \<Rightarrow> error + 'm training" where
  "training_step lib solve_ivp u sample s =
     bind (zero_grad lib (net s)) (\<lambda>m1.
     bind (get_minibatch solve_ivp u 20 (generator s)) (\<lambda>((initial_conditions, trajectories), g').
     bind (run_model lib m1 initial_conditions trajectories) (\<lambda>(loss, m2).
     bind (backward lib loss m2) (\<lambda>m3.
     bind (item lib loss) (\<lambda>v.
     (let rl = 0.9 * running_loss s + 0.1 * v;
          out = (if sample mod 50 = 49 then [Print (sample + 1) rl] else [])
      in bind (optimizer_step lib m3) (\<lambda>m4.
         Inr \<lparr>net = m4, running_loss = rl, generator = g',
              events = events s @ [ZeroGrad, GetMinibatch 20, RunModel, Backward] @ out
                         @ [OptimizerStep]\<rparr>)))))))"

text \<open>The \<open>for\<close> statement over the values of a range, in order.\<close>

fun training_for ::
  "('m, 'l) torch \<Rightarrow> solver \<Rightarrow> (nat \<Rightarrow> real) \<Rightarrow> nat list \<Rightarrow> 'm training \<Rightarrow> error + 'm training" where
  "training_for lib solve_ivp u [] s = Inr s"
| "training_for lib solve_ivp u (sample # rest) s =
     bind (training_step lib solve_ivp u sample s) (training_for lib solve_ivp u rest)"

definition training_loop ::
  "('m, 'l) torch \<Rightarrow> solver \<Rightarrow> (nat \<Rightarrow> real) \<Rightarrow> 'm \<Rightarrow> nat \<Rightarrow> error + 'm training" where
  "training_loop lib solve_ivp u model g =
     training_for lib solve_ivp u [0..<2000]
       \<lparr>net = model, running_loss = 0, generator = g, events = []\<rparr>"

section \<open>The network\<close>

text \<open>
  \<^verbatim>\<open>
  class LSTMNetwork(nn.Module):

      def __init__(self, input_dim, hidden_dim, target_dim):
          super(LSTMNetwork, self).__init__()
          #TODO: complete this method

      def forward(self, input):
          #TODO: complete this method
  \<close>
  The notebook leaves both bodies to the reader and describes them in prose: a
  \<open>torch.nn.LSTM\<close> layer for the dynamics and a \<open>torch.nn.Linear\<close> layer that decodes the
  two-dimensional state from the hidden variables. Tensors are nested lists in the
  axis order sequence, minibatch, elements.
\<close>

text \<open>
  Modelled from the spec: the \<open>torch.nn.Linear\<close> layer that \<open>__init__\<close> is to create,
  with its weight matrix (one row per output) and its bias; applied to a vector of
  another length than its rows it raises.
\<close>

record linear_layer =
  weight :: "real list list"
  bias :: "real list"

definition linear_forward :: "linear_layer \<Rightarrow> real list \<Rightarrow> error + real list" where
  "linear_forward L h =
     (if (\<forall>row \<in> set (weight L). length row = length h) \<and> length (bias L) = length (weight L)
      then Inr (map2 (\<lambda>row b. sum_list (map2 (*) row h) + b) (weight L) (bias L))
      else Inl RuntimeError)"

text \<open>
  Modelled from the spec: the \<open>torch.nn.LSTM\<close> layer that \<open>__init__\<close> is to create. The
  library's recurrent cell is a parameter: it maps an input vector and the pair of
  hidden and cell state to the next pair. The layer runs the cell along the sequence
  of every example from the zero state and returns the hidden vectors.
\<close>

record lstm_layer =
  hidden_size :: nat
  cell :: "real list \<Rightarrow> real list \<times> real list \<Rightarrow> real list \<times> real list"

fun lstm_unroll ::
  "(real list \<Rightarrow> real list \<times> real list \<Rightarrow> real list \<times> real list) \<Rightarrow> real list \<times> real list
     \<Rightarrow> real list list \<Rightarrow> real list list" where
  "lstm_unroll c hc [] = []"
| "lstm_unroll c hc (x # xs) = (let hc' = c x hc in fst hc' # lstm_unroll c hc' xs)"

definition lstm_forward :: "lstm_layer \<Rightarrow> real list list list \<Rightarrow> real list list list" where
  "lstm_forward L input =
     (let h0 = replicate (hidden_size L) 0;
          c0 = replicate (hidden_size L) 0
      in transpose (map (lstm_unroll (cell L) (h0, c0)) (transpose input)))"

text \<open>The results of a list of calls, or the first error among them.\<close>

fun collect :: "(error + 'a) list \<Rightarrow> error + 'a list" where
  "collect [] = Inr []"
| "collect (r # rs) = bind r (\<lambda>v. bind (collect rs) (\<lambda>vs. Inr (v # vs)))"

text \<open>
  Modelled from the spec: the body of \<open>LSTMNetwork.forward\<close>, the recurrent layer
  followed by the linear layer applied to every hidden vector.
\<close>

record LSTMNetwork =
  lstm :: lstm_layer
  linear_out :: linear_layer

definition forward :: "LSTMNetwork \<Rightarrow> real list list list \<Rightarrow> error + real list list list" where
  "forward self input =
     (let hidden = lstm_forward (lstm self) input
      in collect (map (\<lambda>step. collect (map (linear_forward (linear_out self)) step)) hidden))"

text \<open>
  A small network to run \<open>forward\<close> on: one hidden unit that adds up its inputs and
  its previous value, decoded to the two elements \<open>h\<close> and \<open>2 h\<close>.
\<close>

definition adding_network :: LSTMNetwork where
  "adding_network =
     \<lparr>lstm = \<lparr>hidden_size = 1, cell = (\<lambda>x hc. ([sum_list x + sum_list (fst hc)], snd hc))\<rparr>,
      linear_out = \<lparr>weight = [[1], [2]], bias = [0, 0]\<rparr>\<rparr>"

section \<open>Reference definitions for the statements\<close>

text \<open>
  The uniform time grid \<open>np.linspace(0, T, int(T/dt)+1)\<close> with \<open>T = 2\<close> and
  \<open>dt = 0.1\<close>, as an expression and as the list of its 21 values.
\<close>

definition uniform_grid :: "error + real list" where
  "uniform_grid = linspace 0 2 (py_int (2 / 0.1) + 1)"

definition time_grid :: "real list" where
  "time_grid = (map (\<lambda>i. real i * (2 / 20) + 0) [0..<21])[20 := 2]"

text \<open>The 20 sample values of \<open>np.linspace(-5, 5, 20)\<close>.\<close>

definition flow_grid :: "real list" where
  "flow_grid = (map (\<lambda>i. real i * (10 / 19) + (- 5)) [0..<20])[19 := 5]"

text \<open>
  What the description of \<open>get_random_trajectory\<close> says it returns: the solver's
  trajectory for \<open>van_der_pol_dynamics\<close> over \<open>[0, 2]\<close> from the random initial state,
  each of its two components interpolated linearly onto the uniform grid.
\<close>

definition initial_state :: "(nat \<Rightarrow> real) \<Rightarrow> nat \<Rightarrow> real list" where
  "initial_state u g = [- 5 + 10 * u g, - 5 + 10 * u (g + 1)]"

definition resample :: "ode_result \<Rightarrow> error + real list list" where
  "resample sol =
     bind uniform_grid (\<lambda>grid.
     bind (getitem (sol_y sol) 0) (\<lambda>y0.
     bind (interp grid (sol_t sol) y0) (\<lambda>c0.
     bind (getitem (sol_y sol) 1) (\<lambda>y1.
     bind (interp grid (sol_t sol) y1) (\<lambda>c1.
     Inr [c0, c1])))))"

definition resampled_solution ::
  "solver \<Rightarrow> (nat \<Rightarrow> real) \<Rightarrow> nat \<Rightarrow> error + (real list list \<times> nat)" where
  "resampled_solution solve_ivp u g =
     bind (solve_ivp van_der_pol_dynamics (0, 2) (initial_state u g) 0.1) (\<lambda>sol.
     bind (resample sol) (\<lambda>tr. Inr (tr, g + 2)))"

text \<open>
  A result of the solver is well formed when it has at least one time point, at least
  two state rows, and one state value per time point in every row.
\<close>

definition solution_ok :: "ode_result \<Rightarrow> bool" where
  "solution_ok sol \<longleftrightarrow>
     sol_t sol \<noteq> [] \<and> 2 \<le> length (sol_y sol) \<and>
     (\<forall>r \<in> set (sol_y sol). length r = length (sol_t sol))"

text \<open>
  One example of a minibatch, as the loop appends it: the transposed input \<open>a\<close> and the
  transposed trajectory \<open>b\<close>, 21 rows of two elements each, equal in row 0, and \<open>a\<close> zero
  in every later row.
\<close>

definition example_ok :: "real list list \<Rightarrow> real list list \<Rightarrow> bool" where
  "example_ok a b \<longleftrightarrow>
     length a = 21 \<and> length b = 21 \<and> (\<forall>t < 21. length (a ! t) = 2 \<and> length (b ! t) = 2) \<and>
     a ! 0 = b ! 0 \<and> (\<forall>t < 21. 1 \<le> t \<longrightarrow> a ! t = [0, 0])"

text \<open>
  A stand-in for the solver, used to run the definitions on concrete inputs: it returns
  the two end points of the time span and holds the state at its initial value.
\<close>

definition still_solver :: solver where
  "still_solver f t_span x0 h = Inr \<lparr>sol_t = [fst t_span, snd t_span], sol_y = map (\<lambda>c. [c, c]) x0\<rparr>"

text \<open>
  The events of one iteration of the training loop, the periodic print left out.
\<close>

definition is_print :: "event \<Rightarrow> bool" where
  "is_print e = (case e of Print k v \<Rightarrow> True | _ \<Rightarrow> False)"

definition iteration_events :: "event list" where
  "iteration_events = [ZeroGrad, GetMinibatch 20, RunModel, Backward, OptimizerStep]"

text \<open>
  Stand-ins for the deep-learning library, used to run the loop on concrete inputs:
  the state is the number of optimizer steps taken, and the loss is a number.
  \<open>counting_torch\<close> never raises; \<open>failing_torch k\<close> raises in the call numbered \<open>k\<close>
  of an iteration.
\<close>

definition counting_torch :: "(nat, real) torch" where
  "counting_torch =
     \<lparr>zero_grad = (\<lambda>m. Inr m), run_model = (\<lambda>m a b. Inr (1, m)),
      backward = (\<lambda>l m. Inr m), item = (\<lambda>l. Inr l), optimizer_step = (\<lambda>m. Inr (Suc m))\<rparr>"

definition failing_torch :: "nat \<Rightarrow> (nat, real) torch" where
  "failing_torch k =
     \<lparr>zero_grad = (\<lambda>m. if k = 0 then Inl (LibraryError 0) else Inr m),
      run_model = (\<lambda>m a b. if k = 1 then Inl (LibraryError 1) else Inr (1, m)),
      backward = (\<lambda>l m. if k = 2 then Inl (LibraryError 2) else Inr m),
      item = (\<lambda>l. if k = 3 then Inl (LibraryError 3) else Inr l),
      optimizer_step = (\<lambda>m. if k = 4 then Inl (LibraryError 4) else Inr (Suc m))\<rparr>"

definition failing_solver :: solver where
  "failing_solver f t_span x0 h = Inl (LibraryError 5)"

section \<open>Properties\<close>

lemma bind_Inr [simp]: "bind (Inr v) f = f v"
  by (simp add: bind_def)

lemma bind_Inl [simp]: "bind (Inl e) f = Inl e"
  by (simp add: bind_def)

text \<open>
  C1. For every state vector \<open>x = (x1, x2)\<close> and every time \<open>t\<close>,
  \<open>van_der_pol_dynamics(t, x)\<close> returns \<open>[x2, mu*(1 - x1^2)*x2 - x1]\<close> with the
  fixed parameter \<open>mu = 0.1 > 0\<close>: the right-hand side of the van der Pol equation
  written as a first-order system in two variables.
\<close>

theorem van_der_pol_dynamics_rhs:
  "van_der_pol_dynamics t [x1, x2] = Inr [x2, 0.1 * (1 - x1\<^sup>2) * x2 - x1]
   \<and> (0.1 :: real) > 0"
  by (simp add: van_der_pol_dynamics_def getitem_def)

text \<open>
  C9. \<open>van_der_pol_dynamics\<close> is time-invariant: for all times \<open>t1\<close>, \<open>t2\<close> and every
  state \<open>x\<close> (of any length, also one on which the function raises), the result at
  \<open>t1\<close> is the result at \<open>t2\<close>.
\<close>

theorem van_der_pol_dynamics_time_invariant:
  "van_der_pol_dynamics t1 x = van_der_pol_dynamics t2 x"
  by (simp add: van_der_pol_dynamics_def)

subsection \<open>The flow field and the right-hand side\<close>

lemma linspace_flow: "linspace (- 5) 5 20 = Inr flow_grid"
  by (simp add: linspace_def Let_def flow_grid_def)

lemma length_flow_grid [simp]: "length flow_grid = 20"
  by (simp add: flow_grid_def)

lemma arr_zip_rect:
  assumes "length A = m" "\<forall>r\<in>set A. length r = n" "length B = m" "\<forall>r\<in>set B. length r = n"
  shows "arr_zip f A B = Inr (map (\<lambda>i. map (\<lambda>j. f (A ! i ! j) (B ! i ! j)) [0..<n]) [0..<m])"
proof -
  have sh: "map length A = map length B"
    using assms by (auto intro!: nth_equalityI)
  have "map2 (\<lambda>a b. map2 f a b) A B = map (\<lambda>i. map (\<lambda>j. f (A ! i ! j) (B ! i ! j)) [0..<n]) [0..<m]"
    using assms by (auto intro!: nth_equalityI)
  with sh show ?thesis by (simp add: arr_zip_def same_shape_def)
qed

lemma flow_field_eq:
  "flow_field = Inr (replicate 20 flow_grid, map (replicate 20) flow_grid, map (replicate 20) flow_grid,
      map (\<lambda>i. map (\<lambda>j. 0.1 * (1 - (flow_grid ! j)\<^sup>2) * (flow_grid ! i) - flow_grid ! j) [0..<20]) [0..<20])"
proof -
  let ?A = "arr_map (\<lambda>v. 0.1 * v) (arr_map (\<lambda>v. 1 - v) (arr_map (\<lambda>v. v ^ 2) (replicate 20 flow_grid)))"
  let ?M = "map (\<lambda>i. map (\<lambda>j. 0.1 * (1 - (flow_grid ! j)\<^sup>2) * (flow_grid ! i)) [0..<20]) [0..<20]"
  have m: "arr_zip (*) ?A (map (replicate 20) flow_grid) = Inr ?M"
    by (subst arr_zip_rect [where m = 20 and n = 20]) (auto simp: arr_map_def)
  have d: "arr_zip (-) ?M (replicate 20 flow_grid) =
      Inr (map (\<lambda>i. map (\<lambda>j. 0.1 * (1 - (flow_grid ! j)\<^sup>2) * (flow_grid ! i) - flow_grid ! j) [0..<20]) [0..<20])"
    by (subst arr_zip_rect [where m = 20 and n = 20]) auto
  show ?thesis
    unfolding flow_field_def linspace_flow
    by (simp only: bind_Inr meshgrid_def Let_def prod.case length_flow_grid m d)
qed

text \<open>
  C10. The vectorised computation in \<open>plot_flow_field\<close> and the scalar one in
  \<open>van_der_pol_dynamics\<close> define the same dynamics: \<open>plot_flow_field\<close> computes four
  20 by 20 arrays \<open>X1\<close>, \<open>X2\<close>, \<open>dx1\<close>, \<open>dx2\<close>, hands exactly these to \<open>streamplot\<close>, and
  at every grid point \<open>(i, j)\<close> the pair \<open>(dx1[i][j], dx2[i][j])\<close> is
  \<open>van_der_pol_dynamics(t, [X1[i][j], X2[i][j]])\<close>, for any \<open>t\<close>.
\<close>

theorem flow_field_is_van_der_pol_dynamics:
  "\<exists>X1 X2 dx1 dx2.
     flow_field = Inr (X1, X2, dx1, dx2) \<and>
     plot_flow_field plt p = bind (figure plt (4, 4) p) (streamplot plt X1 X2 dx1 dx2 1) \<and>
     length X1 = 20 \<and> length X2 = 20 \<and> length dx1 = 20 \<and> length dx2 = 20 \<and>
     (\<forall>i < 20. length (X1 ! i) = 20 \<and> length (X2 ! i) = 20 \<and>
        length (dx1 ! i) = 20 \<and> length (dx2 ! i) = 20) \<and>
     (\<forall>i < 20. \<forall>j < 20.
        van_der_pol_dynamics t [X1 ! i ! j, X2 ! i ! j] = Inr [dx1 ! i ! j, dx2 ! i ! j])"
  unfolding plot_flow_field_def flow_field_eq
  by (simp add: van_der_pol_dynamics_def getitem_def)

theorem flow_field_is_van_der_pol_dynamics_witness:
  "\<exists>X1 X2 dx1 dx2.
     flow_field = Inr (X1, X2, dx1, dx2) \<and> (3 :: nat) < 20 \<and> (4 :: nat) < 20 \<and>
     van_der_pol_dynamics 7 [X1 ! 3 ! 4, X2 ! 3 ! 4] = Inr [dx1 ! 3 ! 4, dx2 ! 3 ! 4]"
proof -
  from flow_field_is_van_der_pol_dynamics
    [where t = 7 and p = "0 :: nat"
       and plt = "\<lparr>figure = (\<lambda>_ p. Inr p), streamplot = (\<lambda>_ _ _ _ _ p. Inr p)\<rparr>"]
  obtain X1 X2 dx1 dx2 where
    f: "flow_field = Inr (X1, X2, dx1, dx2)" and
    a: "\<forall>i < 20. \<forall>j < 20.
        van_der_pol_dynamics 7 [X1 ! i ! j, X2 ! i ! j] = Inr [dx1 ! i ! j, dx2 ! i ! j]"
    by blast
  have "(3 :: nat) < 20" "(4 :: nat) < 20" by simp_all
  with a have "van_der_pol_dynamics 7 [X1 ! 3 ! 4, X2 ! 3 ! 4] = Inr [dx1 ! 3 ! 4, dx2 ! 3 ! 4]"
    by blast
  with f have "flow_field = Inr (X1, X2, dx1, dx2) \<and> (3 :: nat) < 20 \<and> (4 :: nat) < 20 \<and>
     van_der_pol_dynamics 7 [X1 ! 3 ! 4, X2 ! 3 ! 4] = Inr [dx1 ! 3 ! 4, dx2 ! 3 ! 4]"
    by simp
  then show ?thesis by blast
qed

subsection \<open>Random trajectories\<close>

lemma py_int_20: "py_int (2 / 0.1) = 20"
  by (simp add: py_int_def)

lemma uniform_grid_eq: "uniform_grid = Inr time_grid"
  unfolding uniform_grid_def py_int_20 by (simp add: linspace_def Let_def time_grid_def)

lemma length_time_grid [simp]: "length time_grid = 21"
  by (simp add: time_grid_def)

lemma interp_length: "interp x xp fp = Inr v \<Longrightarrow> length v = length x"
  by (auto simp: interp_def split: if_splits)

lemma set_row0: "length v = n \<Longrightarrow> set_row (zeros 2 n) 0 v = Inr [v, replicate n 0]"
  by (simp add: set_row_def zeros_def numeral_2_eq_2)

lemma set_row1: "length v = length z \<Longrightarrow> set_row [w, z] (Suc 0) v = Inr [w, v]"
  by (simp add: set_row_def)

lemma resample_eq:
  "resample sol =
     bind (getitem (sol_y sol) 0) (\<lambda>y0.
     bind (interp time_grid (sol_t sol) y0) (\<lambda>c0.
     bind (getitem (sol_y sol) 1) (\<lambda>y1.
     bind (interp time_grid (sol_t sol) y1) (\<lambda>c1.
     Inr [c0, c1]))))"
  by (simp add: resample_def uniform_grid_eq)

lemma get_random_trajectory_eq:
  "get_random_trajectory solve_ivp u g = resampled_solution solve_ivp u g"
proof -
  have r: "rand u 2 g = ([u g, u (g + 1)], g + 2)"
    by (simp add: rand_def numeral_2_eq_2 upt_rec)
  have body: "bind (getitem (sol_y sol) 0) (\<lambda>y0.
          bind (interp time_grid (sol_t sol) y0) (\<lambda>v0.
          bind (set_row (zeros 2 (length time_grid)) 0 v0) (\<lambda>trajectory.
          bind (getitem (sol_y sol) 1) (\<lambda>y1.
          bind (interp time_grid (sol_t sol) y1) (\<lambda>v1.
          bind (set_row trajectory 1 v1) (\<lambda>trajectory.
          Inr (trajectory, g + 2))))))) = bind (resample sol) (\<lambda>tr. Inr (tr, g + 2))" for sol
  proof (cases "getitem (sol_y sol) 0")
    case (Inl e)
    then show ?thesis by (simp add: resample_eq)
  next
    case y0: (Inr y0)
    show ?thesis
    proof (cases "interp time_grid (sol_t sol) y0")
      case (Inl e)
      with y0 show ?thesis by (simp add: resample_eq)
    next
      case v0: (Inr v0)
      then have l0: "length v0 = 21" by (auto dest: interp_length)
      show ?thesis
      proof (cases "getitem (sol_y sol) 1")
        case (Inl e)
        with y0 v0 l0 show ?thesis by (simp add: resample_eq set_row0)
      next
        case y1: (Inr y1)
        show ?thesis
        proof (cases "interp time_grid (sol_t sol) y1")
          case (Inl e)
          with y0 v0 l0 y1 show ?thesis by (simp add: resample_eq set_row0)
        next
          case v1: (Inr v1)
          then have l1: "length v1 = 21" by (auto dest: interp_length)
          with y0 v0 l0 y1 v1 show ?thesis by (simp add: resample_eq set_row0 set_row1)
        qed
      qed
    qed
  qed
  have lin: "linspace 0 2 (py_int (2 / (1 / 10)) + 1) = Inr time_grid"
    using uniform_grid_eq by (simp add: uniform_grid_def)
  show ?thesis
    unfolding get_random_trajectory_def resampled_solution_def initial_state_def Let_def r prod.case lin
    by (simp only: bind_Inr list.map body)
qed

lemma resample_shape:
  "resample sol = Inr tr \<Longrightarrow> \<exists>v0 v1. tr = [v0, v1] \<and> length v0 = 21 \<and> length v1 = 21"
  by (auto simp: resample_eq bind_def split: sum.splits dest!: interp_length)

lemma get_random_trajectory_rows:
  assumes "get_random_trajectory solve_ivp u g = Inr (tr, g')"
  shows "\<exists>v0 v1. tr = [v0, v1] \<and> length v0 = 21 \<and> length v1 = 21 \<and> g' = g + 2"
  using assms unfolding get_random_trajectory_eq resampled_solution_def
  by (auto simp: bind_def split: sum.splits dest!: resample_shape)

lemma resample_ok:
  assumes "solution_ok sol"
  shows "\<exists>tr. resample sol = Inr tr"
proof -
  from assms have l: "0 < length (sol_y sol)" "1 < length (sol_y sol)"
    and t: "sol_t sol \<noteq> []"
    and a: "\<forall>r \<in> set (sol_y sol). length r = length (sol_t sol)"
    by (auto simp: solution_ok_def)
  from l a have "length (sol_y sol ! 0) = length (sol_t sol)" "length (sol_y sol ! 1) = length (sol_t sol)"
    by (metis nth_mem)+
  with l t show ?thesis
    by (simp add: resample_eq getitem_def interp_def)
qed

lemma get_random_trajectory_returns:
  assumes "solve_ivp van_der_pol_dynamics (0, 2) (initial_state u g) 0.1 = Inr sol" "solution_ok sol"
  shows "\<exists>tr. get_random_trajectory solve_ivp u g = Inr (tr, g + 2)"
proof -
  from resample_ok [OF assms(2)] obtain tr where "resample sol = Inr tr" ..
  with assms(1) show ?thesis
    unfolding get_random_trajectory_eq resampled_solution_def by simp
qed

lemma still_solver_ok:
  "\<exists>sol. still_solver f t_span (initial_state u g) h = Inr sol \<and> solution_ok sol"
  by (simp add: still_solver_def solution_ok_def initial_state_def)

text \<open>
  C5. \<open>get_random_trajectory\<close> implements no integrator of its own: what it returns is
  the library solver's trajectory for \<open>van_der_pol_dynamics\<close> over \<open>[0, 2]\<close> from the
  random initial state, each component resampled by \<open>np.interp\<close> onto the uniform grid
  \<open>np.linspace(0, T, int(T/dt)+1)\<close> with \<open>T = 2\<close> and \<open>dt = 0.1\<close>; an error of the
  solver or of the resampling is the error of the call. The initial state lies in
  \<open>[-5, 5)\<^sup>2\<close> when the two samples of the generator lie in \<open>[0, 1)\<close>.
\<close>

theorem get_random_trajectory_is_resampled_solution:
  "get_random_trajectory solve_ivp u g = resampled_solution solve_ivp u g \<and>
   (0 \<le> u g \<and> u g < 1 \<and> 0 \<le> u (g + 1) \<and> u (g + 1) < 1 \<longrightarrow>
      (\<forall>c \<in> set (initial_state u g). - 5 \<le> c \<and> c < 5))"
  by (simp add: get_random_trajectory_eq initial_state_def)

theorem get_random_trajectory_is_resampled_solution_witness:
  "(0 :: real) \<le> 3 / 5 \<and> (3 / 5 :: real) < 1 \<and>
   get_random_trajectory still_solver (\<lambda>k. 3 / 5) 0 = resampled_solution still_solver (\<lambda>k. 3 / 5) 0 \<and>
   initial_state (\<lambda>k. 3 / 5) 0 = [1, 1] \<and>
   - 5 \<le> initial_state (\<lambda>k. 3 / 5) 0 ! 0 \<and> initial_state (\<lambda>k. 3 / 5) 0 ! 0 < 5 \<and>
   - 5 \<le> initial_state (\<lambda>k. 3 / 5) 0 ! 1 \<and> initial_state (\<lambda>k. 3 / 5) 0 ! 1 < 5"
proof -
  have h: "(0 :: real) \<le> 3 / 5 \<and> (3 / 5 :: real) < 1 \<and> (0 :: real) \<le> 3 / 5 \<and> (3 / 5 :: real) < 1"
    by simp
  have i: "initial_state (\<lambda>k. 3 / 5) 0 = [1, 1]"
    by (simp add: initial_state_def)
  from get_random_trajectory_is_resampled_solution [of still_solver "\<lambda>k. 3 / 5" 0] h
  have "get_random_trajectory still_solver (\<lambda>k. 3 / 5) 0 = resampled_solution still_solver (\<lambda>k. 3 / 5) 0"
    and "\<forall>c \<in> set (initial_state (\<lambda>k. 3 / 5) 0). - 5 \<le> c \<and> c < 5"
    by blast+
  with i show ?thesis by simp
qed

subsection \<open>Minibatches\<close>

lemma transpose_2:
  assumes "length v0 = n" "length v1 = n"
  shows "transpose [v0, v1] = map (\<lambda>i. [v0 ! i, v1 ! i]) [0..<n]"
proof -
  have "transpose [v0, v1] = map (\<lambda>i. map (\<lambda>j. [v0, v1] ! j ! i) [0..<length [v0, v1]]) [0..<n]"
    by (rule transpose_rectangle) (use assms in \<open>auto simp: nth_Cons'\<close>)
  then show ?thesis by (simp add: upt_rec numeral_2_eq_2)
qed

lemma loop_body_ok:
  assumes "length v0 = 21" "length v1 = 21"
  shows "\<exists>x0 inp. get_column [v0, v1] 0 = Inr x0 \<and> set_column (zeros_like [v0, v1]) 0 x0 = Inr inp
     \<and> example_ok (transpose inp) (transpose [v0, v1])"
proof -
  have c: "get_column [v0, v1] 0 = Inr [v0 ! 0, v1 ! 0]"
    using assms by (auto simp: get_column_def)
  have s: "set_column (zeros_like [v0, v1]) 0 [v0 ! 0, v1 ! 0]
      = Inr [(replicate 21 0)[0 := v0 ! 0], (replicate 21 0)[0 := v1 ! 0]]"
    using assms by (auto simp: set_column_def zeros_like_def)
  have "example_ok (transpose [(replicate 21 0)[0 := v0 ! 0], (replicate 21 0)[0 := v1 ! 0]])
          (transpose [v0, v1])"
    using assms
    by (simp add: transpose_2 [where n = 21] example_ok_def nth_list_update)
  with c s show ?thesis by simp
qed

lemma minibatch_loop_inv:
  "minibatch_loop solve_ivp u k (ins, trs, g) = Inr (ins', trs', g') \<Longrightarrow>
     \<exists>ni nt. ins' = ins @ ni \<and> trs' = trs @ nt \<and> length ni = k \<and> length nt = k \<and>
       g' = g + 2 * k \<and> (\<forall>i < k. example_ok (ni ! i) (nt ! i))"
proof (induction k arbitrary: ins trs g)
  case 0
  then show ?case by simp
next
  case (Suc k)
  from Suc.prems obtain tr g1 where t: "get_random_trajectory solve_ivp u g = Inr (tr, g1)"
    by (cases "get_random_trajectory solve_ivp u g") auto
  then obtain v0 v1 where tr: "tr = [v0, v1]" "length v0 = 21" "length v1 = 21" "g1 = g + 2"
    by (auto dest: get_random_trajectory_rows)
  from loop_body_ok [OF tr(2,3)] obtain x0 inp where
    b: "get_column [v0, v1] 0 = Inr x0" "set_column (zeros_like [v0, v1]) 0 x0 = Inr inp"
      "example_ok (transpose inp) (transpose [v0, v1])" by blast
  from Suc.prems t tr b have
    "minibatch_loop solve_ivp u k (ins @ [transpose inp], trs @ [transpose tr], g + 2)
       = Inr (ins', trs', g')"
    by simp
  from Suc.IH [OF this] obtain ni nt where
    r: "ins' = (ins @ [transpose inp]) @ ni" "trs' = (trs @ [transpose tr]) @ nt"
       "length ni = k" "length nt = k" "g' = g + 2 + 2 * k"
       "\<forall>i < k. example_ok (ni ! i) (nt ! i)" by blast
  show ?case
    apply (rule exI [where x = "transpose inp # ni"])
    apply (rule exI [where x = "transpose tr # nt"])
    using r b tr by (auto simp: nth_Cons')
qed

lemma minibatch_loop_returns:
  assumes "\<forall>g. \<exists>sol. solve_ivp van_der_pol_dynamics (0, 2) (initial_state u g) 0.1 = Inr sol \<and>
             solution_ok sol"
  shows "\<exists>ins' trs' g'. minibatch_loop solve_ivp u k (ins, trs, g) = Inr (ins', trs', g')"
proof (induction k arbitrary: ins trs g)
  case 0
  show ?case by simp
next
  case (Suc k)
  from assms obtain sol where
    "solve_ivp van_der_pol_dynamics (0, 2) (initial_state u g) 0.1 = Inr sol" "solution_ok sol"
    by blast
  from get_random_trajectory_returns [of solve_ivp u g sol, OF this]
  obtain tr where t: "get_random_trajectory solve_ivp u g = Inr (tr, g + 2)"
    by blast
  then obtain v0 v1 where tr: "tr = [v0, v1]" "length v0 = 21" "length v1 = 21"
    by (auto dest: get_random_trajectory_rows)
  from loop_body_ok [OF tr(2,3)] obtain x0 inp where
    b: "get_column [v0, v1] 0 = Inr x0" "set_column (zeros_like [v0, v1]) 0 x0 = Inr inp" by blast
  from Suc.IH [of "ins @ [transpose inp]" "trs @ [transpose tr]" "g + 2"] t tr b
  show ?case by simp
qed

lemma np_array_ok:
  assumes "as \<noteq> []" "\<forall>a \<in> set as. length a = 21 \<and> (\<forall>t < 21. length (a ! t) = 2)"
  shows "np_array as = Inr (Arr3 as)"
proof -
  have m: "map length a = replicate 21 2" if "a \<in> set as" for a
    using that assms(2) by (auto intro!: nth_equalityI)
  obtain a rest where c: "as = a # rest" using assms(1) by (cases as) auto
  have "a \<noteq> []" "length (a ! 0) = 2" using assms(2) c by auto
  then have h: "length (hd a) = 2" by (simp add: hd_conv_nth)
  have "\<forall>r \<in> set a. length r = 2"
    using assms(2) c by (auto simp: in_set_conv_nth)
  with m h c show ?thesis
    by (simp add: np_array_def)
qed

lemma swap_stack:
  assumes "as \<noteq> []" "\<forall>a \<in> set as. length a = 21"
  shows "transpose as = map (\<lambda>t. map (\<lambda>i. as ! i ! t) [0..<length as]) [0..<21]"
  by (rule transpose_rectangle) (use assms in auto)

lemma shape_swapped:
  assumes "as \<noteq> []" "\<forall>a \<in> set as. length a = 21 \<and> (\<forall>t < 21. length (a ! t) = 2)"
  shows "shape (Arr3 (transpose as)) = [21, length as, 2]"
proof -
  have l: "length (as ! 0 ! 0) = 2" using assms by (cases as) auto
  have n: "0 < length as" using assms(1) by simp
  have "transpose as \<noteq> []" "hd (transpose as) = map (\<lambda>i. as ! i ! 0) [0..<length as]"
    using assms by (simp_all add: swap_stack hd_map upt_rec [of 0 21])
  moreover have "map (\<lambda>i. as ! i ! 0) [0..<length as] \<noteq> []"
    "hd (map (\<lambda>i. as ! i ! 0) [0..<length as]) = as ! 0 ! 0"
    using n by (simp_all add: hd_map)
  ultimately show ?thesis
    using assms l by (simp add: shape_def list.case_eq_if swap_stack)
qed

lemma get_minibatch_run:
  assumes n: "1 \<le> n"
    and l: "minibatch_loop solve_ivp u (nat n) ([], [], g) = Inr (ins, trs, g2)"
  shows "\<exists>I Tr. get_minibatch solve_ivp u n g = Inr ((Arr3 I, Arr3 Tr), g2) \<and>
        shape (Arr3 I) = [21, nat n, 2] \<and> shape (Arr3 Tr) = [21, nat n, 2] \<and>
        (\<forall>t < 21. length (I ! t) = nat n \<and> length (Tr ! t) = nat n \<and>
            (\<forall>i < nat n. length (I ! t ! i) = 2 \<and> length (Tr ! t ! i) = 2)) \<and>
        (\<forall>i < nat n. I ! 0 ! i = Tr ! 0 ! i \<and> (\<forall>t < 21. 1 \<le> t \<longrightarrow> I ! t ! i = [0, 0]))"
proof -
  from minibatch_loop_inv [OF l] have
    len: "length ins = nat n" "length trs = nat n"
    and ex: "\<forall>i < nat n. example_ok (ins ! i) (trs ! i)" by auto
  from n len have ne: "ins \<noteq> []" "trs \<noteq> []" by auto
  have pi: "\<forall>a \<in> set ins. length a = 21 \<and> (\<forall>t < 21. length (a ! t) = 2)"
    using ex len by (auto simp: in_set_conv_nth example_ok_def)
  have pt: "\<forall>a \<in> set trs. length a = 21 \<and> (\<forall>t < 21. length (a ! t) = 2)"
    using ex len by (auto simp: in_set_conv_nth example_ok_def)
  have si: "transpose ins = map (\<lambda>t. map (\<lambda>i. ins ! i ! t) [0..<nat n]) [0..<21]"
    using swap_stack [OF ne(1)] pi len by simp
  have st: "transpose trs = map (\<lambda>t. map (\<lambda>i. trs ! i ! t) [0..<nat n]) [0..<21]"
    using swap_stack [OF ne(2)] pt len by simp
  have g: "get_minibatch solve_ivp u n g = Inr ((Arr3 (transpose ins), Arr3 (transpose trs)), g2)"
    by (simp add: get_minibatch_def l np_array_ok [OF ne(1) pi] np_array_ok [OF ne(2) pt]
          swapaxes01_def torch_Tensor_def)
  have sh: "shape (Arr3 (transpose ins)) = [21, nat n, 2]"
    "shape (Arr3 (transpose trs)) = [21, nat n, 2]"
    using shape_swapped [OF ne(1) pi] shape_swapped [OF ne(2) pt] len by simp_all
  have el: "\<forall>t < 21. length (transpose ins ! t) = nat n \<and> length (transpose trs ! t) = nat n \<and>
      (\<forall>i < nat n. length (transpose ins ! t ! i) = 2 \<and> length (transpose trs ! t ! i) = 2)"
    using ex by (simp add: si st example_ok_def)
  have va: "\<forall>i < nat n. transpose ins ! 0 ! i = transpose trs ! 0 ! i \<and>
      (\<forall>t < 21. 1 \<le> t \<longrightarrow> transpose ins ! t ! i = [0, 0])"
    using ex by (simp add: si st example_ok_def)
  from g sh el va show ?thesis by blast
qed

lemma get_minibatch_empty: "n \<le> 0 \<Longrightarrow> get_minibatch solve_ivp u n g = Inl AxisError"
  by (simp add: get_minibatch_def np_array_def swapaxes01_def)

lemma get_minibatch_Inr:
  assumes "get_minibatch solve_ivp u n g = Inr ((inputs, trajectories), g')"
  shows "1 \<le> n \<and> (\<exists>I Tr. inputs = Arr3 I \<and> trajectories = Arr3 Tr \<and>
        shape inputs = [21, nat n, 2] \<and> shape trajectories = [21, nat n, 2] \<and>
        (\<forall>t < 21. length (I ! t) = nat n \<and> length (Tr ! t) = nat n \<and>
            (\<forall>i < nat n. length (I ! t ! i) = 2 \<and> length (Tr ! t ! i) = 2)) \<and>
        (\<forall>i < nat n. I ! 0 ! i = Tr ! 0 ! i \<and> (\<forall>t < 21. 1 \<le> t \<longrightarrow> I ! t ! i = [0, 0])))"
proof -
  have n: "1 \<le> n"
    using assms get_minibatch_empty [of n solve_ivp u g] by (cases "n \<le> 0") auto
  from assms obtain ins trs g2 where
    l: "minibatch_loop solve_ivp u (nat n) ([], [], g) = Inr (ins, trs, g2)"
    by (cases "minibatch_loop solve_ivp u (nat n) ([], [], g)") (auto simp: get_minibatch_def)
  from get_minibatch_run [OF n l] assms n show ?thesis by auto
qed


lemma get_minibatch_returns:
  assumes n: "1 \<le> n"
    and s: "\<forall>k. \<exists>sol. solve_ivp van_der_pol_dynamics (0, 2) (initial_state u k) 0.1 = Inr sol \<and>
           solution_ok sol"
  shows "\<exists>I Tr. get_minibatch solve_ivp u n g = Inr ((Arr3 I, Arr3 Tr), g + 2 * nat n)"
proof -
  from minibatch_loop_returns [of solve_ivp u, OF s] obtain ins trs g2 where
    l: "minibatch_loop solve_ivp u (nat n) ([], [], g) = Inr (ins, trs, g2)"
    by blast
  from minibatch_loop_inv [OF l] have "g2 = g + 2 * nat n" by auto
  with get_minibatch_run [OF n l] show ?thesis by blast
qed

text \<open>
  C3. For every \<open>n \<ge> 1\<close>, \<open>get_minibatch(n)\<close> returns a pair \<open>(inputs, trajectories)\<close>
  of tensors of the one shape \<open>[sequence_length, n, 2]\<close> with \<open>sequence_length = 21\<close>
  (axis order sequence, minibatch, elements); for every example \<open>i\<close>,
  \<open>inputs[0, i, :]\<close> is \<open>trajectories[0, i, :]\<close>, the initial state of the trajectory, and
  \<open>inputs[t, i, :]\<close> is the zero vector for every time step \<open>t \<ge> 1\<close>. Every result the
  call returns is of this form, and the call returns whenever the solver returns a
  well-formed solution on each of its calls.
\<close>

theorem get_minibatch_shape_and_inputs:
  "1 \<le> n \<Longrightarrow>
   (get_minibatch solve_ivp u n g = Inr ((inputs, trajectories), g') \<longrightarrow>
      (\<exists>I Tr. inputs = Arr3 I \<and> trajectories = Arr3 Tr \<and>
         shape inputs = [21, nat n, 2] \<and> shape trajectories = [21, nat n, 2] \<and>
         (\<forall>t < 21. length (I ! t) = nat n \<and> length (Tr ! t) = nat n \<and>
            (\<forall>i < nat n. length (I ! t ! i) = 2 \<and> length (Tr ! t ! i) = 2)) \<and>
         (\<forall>i < nat n. I ! 0 ! i = Tr ! 0 ! i \<and> (\<forall>t < 21. 1 \<le> t \<longrightarrow> I ! t ! i = [0, 0])))) \<and>
   ((\<forall>k. \<exists>sol. solve_ivp van_der_pol_dynamics (0, 2) (initial_state u k) 0.1 = Inr sol \<and>
           solution_ok sol) \<longrightarrow>
      (\<exists>I Tr. get_minibatch solve_ivp u n g = Inr ((Arr3 I, Arr3 Tr), g + 2 * nat n)))"
proof (intro conjI impI)
  assume "get_minibatch solve_ivp u n g = Inr ((inputs, trajectories), g')"
  from get_minibatch_Inr [OF this]
  show "\<exists>I Tr. inputs = Arr3 I \<and> trajectories = Arr3 Tr \<and>
         shape inputs = [21, nat n, 2] \<and> shape trajectories = [21, nat n, 2] \<and>
         (\<forall>t < 21. length (I ! t) = nat n \<and> length (Tr ! t) = nat n \<and>
            (\<forall>i < nat n. length (I ! t ! i) = 2 \<and> length (Tr ! t ! i) = 2)) \<and>
         (\<forall>i < nat n. I ! 0 ! i = Tr ! 0 ! i \<and> (\<forall>t < 21. 1 \<le> t \<longrightarrow> I ! t ! i = [0, 0]))"
    by blast
next
  assume n: "1 \<le> n"
    and s: "\<forall>k. \<exists>sol. solve_ivp van_der_pol_dynamics (0, 2) (initial_state u k) 0.1 = Inr sol \<and>
           solution_ok sol"
  from get_minibatch_returns [of n solve_ivp u g, OF n s]
  show "\<exists>I Tr. get_minibatch solve_ivp u n g = Inr ((Arr3 I, Arr3 Tr), g + 2 * nat n)" .
qed

theorem get_minibatch_shape_and_inputs_witness:
  "(1 :: int) \<le> 2 \<and>
   (\<exists>I Tr. get_minibatch still_solver (\<lambda>k. 3 / 5) 2 0 = Inr ((Arr3 I, Arr3 Tr), 4) \<and>
      shape (Arr3 I) = [21, 2, 2] \<and> shape (Arr3 Tr) = [21, 2, 2] \<and>
      I ! 0 ! 1 = Tr ! 0 ! 1 \<and> I ! 5 ! 1 = [0, 0])"
proof -
  have n: "(1 :: int) \<le> 2" by simp
  have s: "\<forall>k. \<exists>sol. still_solver van_der_pol_dynamics (0, 2) (initial_state (\<lambda>k. 3 / 5) k) 0.1 = Inr sol
             \<and> solution_ok sol"
    by (simp add: still_solver_def solution_ok_def initial_state_def)
  have "\<exists>I Tr. get_minibatch still_solver (\<lambda>k. 3 / 5) 2 0 = Inr ((Arr3 I, Arr3 Tr), 0 + 2 * nat 2)"
    using get_minibatch_shape_and_inputs
      [OF n, where solve_ivp = still_solver and u = "\<lambda>k. 3 / 5" and g = 0, THEN conjunct2] s
    by (rule mp)
  then obtain I Tr where
    r: "get_minibatch still_solver (\<lambda>k. 3 / 5) 2 0 = Inr ((Arr3 I, Arr3 Tr), 4)"
    by auto
  have "\<exists>I' Tr'. Arr3 I = Arr3 I' \<and> Arr3 Tr = Arr3 Tr' \<and>
         shape (Arr3 I) = [21, nat 2, 2] \<and> shape (Arr3 Tr) = [21, nat 2, 2] \<and>
         (\<forall>t < 21. length (I' ! t) = nat 2 \<and> length (Tr' ! t) = nat 2 \<and>
            (\<forall>i < nat 2. length (I' ! t ! i) = 2 \<and> length (Tr' ! t ! i) = 2)) \<and>
         (\<forall>i < nat 2. I' ! 0 ! i = Tr' ! 0 ! i \<and> (\<forall>t < 21. 1 \<le> t \<longrightarrow> I' ! t ! i = [0, 0]))"
    using get_minibatch_shape_and_inputs
      [OF n, where solve_ivp = still_solver and u = "\<lambda>k. 3 / 5" and g = 0
         and inputs = "Arr3 I" and trajectories = "Arr3 Tr" and g' = 4, THEN conjunct1] r
    by (rule mp)
  then have "shape (Arr3 I) = [21, 2, 2] \<and> shape (Arr3 Tr) = [21, 2, 2] \<and>
      I ! 0 ! 1 = Tr ! 0 ! 1 \<and> I ! 5 ! 1 = [0, 0]"
    by auto
  with n r show ?thesis by blast
qed

text \<open>
  C8. There is one constant \<open>K = len(np.linspace(0, 2, int(2/0.1)+1))\<close>, namely 21,
  such that every array \<open>get_random_trajectory\<close> returns has shape \<open>(2, K)\<close>, however
  many time points the solver produced, and the call returns whenever the solver
  returns a well-formed solution; so the trajectories of every minibatch have the
  sequence length \<open>K\<close>.
\<close>

theorem get_random_trajectory_shape:
  "\<exists>ts. linspace 0 2 (py_int (2 / 0.1) + 1) = Inr ts \<and> length ts = 21 \<and>
     (get_random_trajectory solve_ivp u g = Inr (tr, g') \<longrightarrow>
        length tr = 2 \<and> (\<forall>r \<in> set tr. length r = length ts)) \<and>
     ((\<exists>sol. solve_ivp van_der_pol_dynamics (0, 2) (initial_state u g) 0.1 = Inr sol \<and>
          solution_ok sol) \<longrightarrow>
        (\<exists>tr. get_random_trajectory solve_ivp u g = Inr (tr, g + 2))) \<and>
     (get_minibatch solve_ivp u n g = Inr ((inputs, trajectories), g2) \<longrightarrow>
        shape inputs = [length ts, nat n, 2] \<and> shape trajectories = [length ts, nat n, 2])"
proof -
  have a: "linspace 0 2 (py_int (2 / 0.1) + 1) = Inr time_grid"
    using uniform_grid_eq by (simp add: uniform_grid_def)
  have b: "get_random_trajectory solve_ivp u g = Inr (tr, g') \<longrightarrow>
        length tr = 2 \<and> (\<forall>r \<in> set tr. length r = length time_grid)"
    by (auto dest: get_random_trajectory_rows)
  have c: "(\<exists>sol. solve_ivp van_der_pol_dynamics (0, 2) (initial_state u g) 0.1 = Inr sol \<and>
          solution_ok sol) \<longrightarrow>
        (\<exists>tr. get_random_trajectory solve_ivp u g = Inr (tr, g + 2))"
    using get_random_trajectory_returns [of solve_ivp u g] by blast
  have d: "get_minibatch solve_ivp u n g = Inr ((inputs, trajectories), g2) \<longrightarrow>
        shape inputs = [length time_grid, nat n, 2] \<and>
        shape trajectories = [length time_grid, nat n, 2]"
    by (auto dest: get_minibatch_Inr)
  from a b c d show ?thesis
    by (intro exI [of _ time_grid] conjI) simp_all
qed

theorem get_random_trajectory_shape_witness:
  "\<exists>tr. get_random_trajectory still_solver (\<lambda>k. 3 / 5) 0 = Inr (tr, 2) \<and>
     length tr = 2 \<and> length (tr ! 0) = 21 \<and> length (tr ! 1) = 21"
proof -
  have s: "\<exists>sol. still_solver van_der_pol_dynamics (0, 2) (initial_state (\<lambda>k. 3 / 5) 0) 0.1 = Inr sol
             \<and> solution_ok sol"
    by (simp add: still_solver_def solution_ok_def initial_state_def)
  from get_random_trajectory_shape [of still_solver "\<lambda>k. 3 / 5" 0 "[]" 0 1 "Arr1 []" "Arr1 []" 0]
  have "(\<exists>sol. still_solver van_der_pol_dynamics (0, 2) (initial_state (\<lambda>k. 3 / 5) 0) 0.1 = Inr sol
             \<and> solution_ok sol) \<longrightarrow>
      (\<exists>tr. get_random_trajectory still_solver (\<lambda>k. 3 / 5) 0 = Inr (tr, 0 + 2))"
    by blast
  with s obtain tr where r: "get_random_trajectory still_solver (\<lambda>k. 3 / 5) 0 = Inr (tr, 2)"
    by auto
  from get_random_trajectory_shape [of still_solver "\<lambda>k. 3 / 5" 0 tr 2 1 "Arr1 []" "Arr1 []" 0]
  obtain ts :: "real list" where "length ts = 21"
    "get_random_trajectory still_solver (\<lambda>k. 3 / 5) 0 = Inr (tr, 2) \<longrightarrow>
        length tr = 2 \<and> (\<forall>r \<in> set tr. length r = length ts)"
    by blast
  with r have "length tr = 2 \<and> (\<forall>r \<in> set tr. length r = 21)"
    by simp
  then have "length tr = 2 \<and> length (tr ! 0) = 21 \<and> length (tr ! 1) = 21"
    by simp
  with r show ?thesis by blast
qed

subsection \<open>The training loop\<close>

lemma get_minibatch_generator:
  assumes "get_minibatch solve_ivp u n g = Inr (r, g')"
  shows "g' = g + 2 * nat n"
proof -
  from assms obtain ins trs g2 where
    l: "minibatch_loop solve_ivp u (nat n) ([], [], g) = Inr (ins, trs, g2)"
    by (cases "minibatch_loop solve_ivp u (nat n) ([], [], g)") (auto simp: get_minibatch_def)
  from minibatch_loop_inv [OF l] have "g2 = g + 2 * nat n" by auto
  moreover from assms l have "g' = g2"
    by (auto simp: get_minibatch_def bind_def split: sum.splits)
  ultimately show ?thesis by simp
qed

lemma training_step_Inr:
  assumes "training_step lib solve_ivp u sample s = Inr s'"
  shows "generator s' = generator s + 40 \<and>
    filter (\<lambda>e. \<not> is_print e) (events s') = filter (\<lambda>e. \<not> is_print e) (events s) @ iteration_events"
proof -
  from assms obtain m1 ic tr g' where
    g: "get_minibatch solve_ivp u 20 (generator s) = Inr ((ic, tr), g')"
    by (auto simp: training_step_def bind_def split: sum.splits)
  from get_minibatch_generator [OF g] have g': "g' = generator s + 40" by simp
  from assms g g' show ?thesis
    by (auto simp: training_step_def bind_def Let_def is_print_def iteration_events_def
          split: sum.splits if_splits)
qed

lemma training_for_Inr:
  "training_for lib solve_ivp u xs s = Inr s' \<Longrightarrow>
     generator s' = generator s + 40 * length xs \<and>
     filter (\<lambda>e. \<not> is_print e) (events s') =
       filter (\<lambda>e. \<not> is_print e) (events s) @ concat (replicate (length xs) iteration_events)"
proof (induction xs arbitrary: s)
  case Nil
  then show ?case by simp
next
  case (Cons x xs)
  from Cons.prems obtain s1 where
    a: "training_step lib solve_ivp u x s = Inr s1" and
    b: "training_for lib solve_ivp u xs s1 = Inr s'"
    by (cases "training_step lib solve_ivp u x s") auto
  from training_step_Inr [OF a] Cons.IH [OF b] show ?case by simp
qed

lemma training_step_returns:
  assumes "\<forall>m. \<exists>m'. zero_grad lib m = Inr m'"
    and "\<forall>m a b. \<exists>r. run_model lib m a b = Inr r"
    and "\<forall>l m. \<exists>m'. backward lib l m = Inr m'"
    and "\<forall>l. \<exists>v. item lib l = Inr v"
    and "\<forall>m. \<exists>m'. optimizer_step lib m = Inr m'"
    and s: "\<forall>k. \<exists>sol. solve_ivp van_der_pol_dynamics (0, 2) (initial_state u k) 0.1 = Inr sol \<and>
           solution_ok sol"
  shows "\<exists>s'. training_step lib solve_ivp u sample s = Inr s'"
proof -
  from assms(1) obtain m1 where 1: "zero_grad lib (net s) = Inr m1" by blast
  have "(1::int) \<le> 20" by simp
  from get_minibatch_returns [of 20 solve_ivp u "generator s", OF this s]
  obtain I Tr where
    2: "get_minibatch solve_ivp u 20 (generator s) = Inr ((Arr3 I, Arr3 Tr), generator s + 2 * nat 20)"
    by blast
  from assms(2) obtain loss m2 where 3: "run_model lib m1 (Arr3 I) (Arr3 Tr) = Inr (loss, m2)"
    by (metis surj_pair)
  from assms(3) obtain m3 where 4: "backward lib loss m2 = Inr m3" by blast
  from assms(4) obtain v where 5: "item lib loss = Inr v" by blast
  from assms(5) obtain m4 where 6: "optimizer_step lib m3 = Inr m4" by blast
  from 1 2 3 4 5 6 show ?thesis
    by (simp add: training_step_def Let_def)
qed

lemma training_for_returns:
  assumes "\<forall>m. \<exists>m'. zero_grad lib m = Inr m'"
    and "\<forall>m a b. \<exists>r. run_model lib m a b = Inr r"
    and "\<forall>l m. \<exists>m'. backward lib l m = Inr m'"
    and "\<forall>l. \<exists>v. item lib l = Inr v"
    and "\<forall>m. \<exists>m'. optimizer_step lib m = Inr m'"
    and "\<forall>k. \<exists>sol. solve_ivp van_der_pol_dynamics (0, 2) (initial_state u k) 0.1 = Inr sol \<and>
           solution_ok sol"
  shows "\<exists>s'. training_for lib solve_ivp u xs s = Inr s'"
proof (induction xs arbitrary: s)
  case Nil
  show ?case by simp
next
  case (Cons x xs)
  from training_step_returns [of lib solve_ivp u x s, OF assms]
  obtain s1 where "training_step lib solve_ivp u x s = Inr s1" by blast
  with Cons.IH [of s1] show ?case by simp
qed

lemma count_list_not_print:
  "\<not> is_print x \<Longrightarrow> count_list (filter (\<lambda>e. \<not> is_print e) xs) x = count_list xs x"
  by (induction xs) auto

lemma count_list_iterations:
  "count_list (concat (replicate n xs)) x = n * count_list xs x"
  by (induction n) (simp_all add: count_list_append)

lemma training_step_calls:
  assumes "training_step lib solve_ivp u sample s = Inr s'"
  shows "\<exists>a ic tr loss b c v.
     zero_grad lib (net s) = Inr a \<and>
     get_minibatch solve_ivp u 20 (generator s) = Inr ((ic, tr), generator s') \<and>
     run_model lib a ic tr = Inr (loss, b) \<and>
     backward lib loss b = Inr c \<and>
     item lib loss = Inr v \<and>
     optimizer_step lib c = Inr (net s') \<and>
     running_loss s' = 0.9 * running_loss s + 0.1 * v"
proof -
  from assms obtain a where 1: "zero_grad lib (net s) = Inr a"
    by (cases "zero_grad lib (net s)") (auto simp: training_step_def)
  from assms 1 obtain ic tr g' where 2: "get_minibatch solve_ivp u 20 (generator s) = Inr ((ic, tr), g')"
    by (cases "get_minibatch solve_ivp u 20 (generator s)") (auto simp: training_step_def)
  from assms 1 2 obtain loss b where 3: "run_model lib a ic tr = Inr (loss, b)"
    by (cases "run_model lib a ic tr") (auto simp: training_step_def)
  from assms 1 2 3 obtain c where 4: "backward lib loss b = Inr c"
    by (cases "backward lib loss b") (auto simp: training_step_def)
  from assms 1 2 3 4 obtain v where 5: "item lib loss = Inr v"
    by (cases "item lib loss") (auto simp: training_step_def)
  from assms 1 2 3 4 5 obtain m4 where 6: "optimizer_step lib c = Inr m4"
    by (cases "optimizer_step lib c") (auto simp: training_step_def Let_def)
  from assms 1 2 3 4 5 6 have "net s' = m4" "generator s' = g'"
    "running_loss s' = 0.9 * running_loss s + 0.1 * v"
    by (auto simp: training_step_def Let_def)
  with 1 2 3 4 5 6 show ?thesis by blast
qed

lemma training_for_states:
  "training_for lib solve_ivp u xs s = Inr s' \<Longrightarrow>
     \<exists>ss. length ss = Suc (length xs) \<and> ss ! 0 = s \<and> ss ! length xs = s' \<and>
       (\<forall>k < length xs. training_step lib solve_ivp u (xs ! k) (ss ! k) = Inr (ss ! Suc k))"
proof (induction xs arbitrary: s)
  case Nil
  then have "length [s] = Suc (length ([] :: nat list)) \<and> [s] ! 0 = s \<and> [s] ! length ([] :: nat list) = s'"
    by simp
  then show ?case by (intro exI [of _ "[s]"]) simp
next
  case (Cons x xs)
  from Cons.prems obtain s1 where
    a: "training_step lib solve_ivp u x s = Inr s1" and
    b: "training_for lib solve_ivp u xs s1 = Inr s'"
    by (cases "training_step lib solve_ivp u x s") auto
  from Cons.IH [OF b] obtain ss where
    ss: "length ss = Suc (length xs)" "ss ! 0 = s1" "ss ! length xs = s'"
      "\<forall>k < length xs. training_step lib solve_ivp u (xs ! k) (ss ! k) = Inr (ss ! Suc k)"
    by blast
  have "\<forall>k < length (x # xs).
      training_step lib solve_ivp u ((x # xs) ! k) ((s # ss) ! k) = Inr ((s # ss) ! Suc k)"
  proof (intro allI impI)
    fix k assume "k < length (x # xs)"
    then show "training_step lib solve_ivp u ((x # xs) ! k) ((s # ss) ! k) = Inr ((s # ss) ! Suc k)"
      using a ss by (cases k) simp_all
  qed
  with ss show ?case
    by (intro exI [of _ "s # ss"]) simp
qed

lemma training_loop_states:
  assumes "training_loop lib solve_ivp u model g = Inr s'"
  shows "\<exists>ss. length ss = 2001 \<and>
     ss ! 0 = \<lparr>net = model, running_loss = 0, generator = g, events = []\<rparr> \<and> ss ! 2000 = s' \<and>
     (\<forall>k < 2000. \<exists>a ic tr loss b c v.
        zero_grad lib (net (ss ! k)) = Inr a \<and>
        get_minibatch solve_ivp u 20 (generator (ss ! k)) = Inr ((ic, tr), generator (ss ! Suc k)) \<and>
        generator (ss ! k) = g + 40 * k \<and>
        run_model lib a ic tr = Inr (loss, b) \<and>
        backward lib loss b = Inr c \<and>
        item lib loss = Inr v \<and>
        optimizer_step lib c = Inr (net (ss ! Suc k)) \<and>
        running_loss (ss ! Suc k) = 0.9 * running_loss (ss ! k) + 0.1 * v)"
proof -
  from training_for_states [OF assms [unfolded training_loop_def]] obtain ss where
    ss: "length ss = 2001"
      "ss ! 0 = \<lparr>net = model, running_loss = 0, generator = g, events = []\<rparr>" "ss ! 2000 = s'"
      and st: "\<forall>k < 2000. training_step lib solve_ivp u ([0..<2000] ! k) (ss ! k) = Inr (ss ! Suc k)"
    by auto
  have gen: "generator (ss ! k) = g + 40 * k" if "k \<le> 2000" for k
    using that
  proof (induction k)
    case 0
    show ?case using ss(2) by simp
  next
    case (Suc k)
    then have "k < 2000" by simp
    with st have "training_step lib solve_ivp u ([0..<2000] ! k) (ss ! k) = Inr (ss ! Suc k)" by blast
    from training_step_Inr [OF this] Suc show ?case by simp
  qed
  have "\<exists>a ic tr loss b c v.
        zero_grad lib (net (ss ! k)) = Inr a \<and>
        get_minibatch solve_ivp u 20 (generator (ss ! k)) = Inr ((ic, tr), generator (ss ! Suc k)) \<and>
        generator (ss ! k) = g + 40 * k \<and>
        run_model lib a ic tr = Inr (loss, b) \<and>
        backward lib loss b = Inr c \<and>
        item lib loss = Inr v \<and>
        optimizer_step lib c = Inr (net (ss ! Suc k)) \<and>
        running_loss (ss ! Suc k) = 0.9 * running_loss (ss ! k) + 0.1 * v" if k: "k < 2000" for k
  proof -
    from st k have "training_step lib solve_ivp u ([0..<2000] ! k) (ss ! k) = Inr (ss ! Suc k)" by blast
    from training_step_calls [OF this] gen [of k] k show ?thesis by auto
  qed
  with ss show ?thesis by blast
qed

text \<open>
  C2. The training loop is fixed-iteration. Whenever it finishes it has gone through
  exactly 2000 iterations: there are 2001 successive states, from the initial one to
  the final one, and from each to the next the loop has called \<open>model.zero_grad()\<close> on
  the current network state, \<open>get_minibatch(20)\<close> on the current state of the random
  generator (40 samples further after each call), the model and the loss on that
  minibatch, \<open>loss.backward()\<close>, \<open>loss.item()\<close> for the running loss, and
  \<open>optimizer.step()\<close> once, whose result is the next network state. So 2000 minibatches
  of 20 examples are drawn and 2000 optimizer steps are taken, whatever the library
  returned; and the loop finishes whenever no library call raises. The line of the
  iteration that the notebook leaves to the reader is a parameter of the model.
\<close>

theorem training_loop_runs_2000_iterations:
  "(training_loop lib solve_ivp u model g = Inr s' \<longrightarrow>
      (\<exists>ss. length ss = 2001 \<and>
         ss ! 0 = \<lparr>net = model, running_loss = 0, generator = g, events = []\<rparr> \<and>
         ss ! 2000 = s' \<and>
         (\<forall>k < 2000. \<exists>a ic tr loss b c v.
            zero_grad lib (net (ss ! k)) = Inr a \<and>
            get_minibatch solve_ivp u 20 (generator (ss ! k))
              = Inr ((ic, tr), generator (ss ! Suc k)) \<and>
            generator (ss ! k) = g + 40 * k \<and>
            run_model lib a ic tr = Inr (loss, b) \<and>
            backward lib loss b = Inr c \<and>
            item lib loss = Inr v \<and>
            optimizer_step lib c = Inr (net (ss ! Suc k)) \<and>
            running_loss (ss ! Suc k) = 0.9 * running_loss (ss ! k) + 0.1 * v)) \<and>
      filter (\<lambda>e. \<not> is_print e) (events s') = concat (replicate 2000 iteration_events) \<and>
      count_list (events s') (GetMinibatch 20) = 2000 \<and>
      count_list (events s') OptimizerStep = 2000 \<and>
      generator s' = g + 2000 * (20 * 2)) \<and>
   ((\<forall>m. \<exists>m'. zero_grad lib m = Inr m') \<and>
    (\<forall>m a b. \<exists>r. run_model lib m a b = Inr r) \<and>
    (\<forall>l m. \<exists>m'. backward lib l m = Inr m') \<and>
    (\<forall>l. \<exists>v. item lib l = Inr v) \<and>
    (\<forall>m. \<exists>m'. optimizer_step lib m = Inr m') \<and>
    (\<forall>k. \<exists>sol. solve_ivp van_der_pol_dynamics (0, 2) (initial_state u k) 0.1 = Inr sol \<and>
           solution_ok sol) \<longrightarrow>
      (\<exists>s'. training_loop lib solve_ivp u model g = Inr s'))"
proof (intro conjI impI)
  assume a: "training_loop lib solve_ivp u model g = Inr s'"
  from training_for_Inr [OF a [unfolded training_loop_def]]
  have g: "generator s' = g + 2000 * (20 * 2)"
    and f: "filter (\<lambda>e. \<not> is_print e) (events s') = concat (replicate 2000 iteration_events)"
    by simp_all
  have "count_list (events s') (GetMinibatch 20) =
      count_list (filter (\<lambda>e. \<not> is_print e) (events s')) (GetMinibatch 20)"
    by (rule count_list_not_print [symmetric]) (simp add: is_print_def)
  then have c1: "count_list (events s') (GetMinibatch 20) = 2000"
    unfolding f count_list_iterations by (simp add: iteration_events_def)
  have "count_list (events s') OptimizerStep =
      count_list (filter (\<lambda>e. \<not> is_print e) (events s')) OptimizerStep"
    by (rule count_list_not_print [symmetric]) (simp add: is_print_def)
  then have c2: "count_list (events s') OptimizerStep = 2000"
    unfolding f count_list_iterations by (simp add: iteration_events_def)
  from training_loop_states [OF a]
  show "\<exists>ss. length ss = 2001 \<and>
         ss ! 0 = \<lparr>net = model, running_loss = 0, generator = g, events = []\<rparr> \<and>
         ss ! 2000 = s' \<and>
         (\<forall>k < 2000. \<exists>a ic tr loss b c v.
            zero_grad lib (net (ss ! k)) = Inr a \<and>
            get_minibatch solve_ivp u 20 (generator (ss ! k))
              = Inr ((ic, tr), generator (ss ! Suc k)) \<and>
            generator (ss ! k) = g + 40 * k \<and>
            run_model lib a ic tr = Inr (loss, b) \<and>
            backward lib loss b = Inr c \<and>
            item lib loss = Inr v \<and>
            optimizer_step lib c = Inr (net (ss ! Suc k)) \<and>
            running_loss (ss ! Suc k) = 0.9 * running_loss (ss ! k) + 0.1 * v)" .
  from f show "filter (\<lambda>e. \<not> is_print e) (events s') = concat (replicate 2000 iteration_events)" .
  from c1 show "count_list (events s') (GetMinibatch 20) = 2000" .
  from c2 show "count_list (events s') OptimizerStep = 2000" .
  from g show "generator s' = g + 2000 * (20 * 2)" .
next
  assume "(\<forall>m. \<exists>m'. zero_grad lib m = Inr m') \<and>
    (\<forall>m a b. \<exists>r. run_model lib m a b = Inr r) \<and>
    (\<forall>l m. \<exists>m'. backward lib l m = Inr m') \<and>
    (\<forall>l. \<exists>v. item lib l = Inr v) \<and>
    (\<forall>m. \<exists>m'. optimizer_step lib m = Inr m') \<and>
    (\<forall>k. \<exists>sol. solve_ivp van_der_pol_dynamics (0, 2) (initial_state u k) 0.1 = Inr sol \<and>
           solution_ok sol)"
  then show "\<exists>s'. training_loop lib solve_ivp u model g = Inr s'"
    unfolding training_loop_def
    by (intro training_for_returns) blast+
qed

theorem training_loop_runs_2000_iterations_witness:
  "\<exists>s'. training_loop counting_torch still_solver (\<lambda>k. 3 / 5) 0 0 = Inr s' \<and>
     net s' = 2000 \<and>
     filter (\<lambda>e. \<not> is_print e) (events s') = concat (replicate 2000 iteration_events) \<and>
     count_list (events s') (GetMinibatch 20) = 2000 \<and>
     count_list (events s') OptimizerStep = 2000 \<and>
     generator s' = 80000"
proof -
  have h: "(\<forall>m. \<exists>m'. zero_grad counting_torch m = Inr m') \<and>
    (\<forall>m a b. \<exists>r. run_model counting_torch m a b = Inr r) \<and>
    (\<forall>l m. \<exists>m'. backward counting_torch l m = Inr m') \<and>
    (\<forall>l. \<exists>v. item counting_torch l = Inr v) \<and>
    (\<forall>m. \<exists>m'. optimizer_step counting_torch m = Inr m') \<and>
    (\<forall>k. \<exists>sol. still_solver van_der_pol_dynamics (0, 2) (initial_state (\<lambda>k. 3 / 5) k) 0.1 = Inr sol \<and>
           solution_ok sol)"
    by (simp add: counting_torch_def still_solver_def solution_ok_def initial_state_def)
  have "\<exists>s'. training_loop counting_torch still_solver (\<lambda>k. 3 / 5) 0 0 = Inr s'"
    using training_loop_runs_2000_iterations
      [where lib = counting_torch and solve_ivp = still_solver and u = "\<lambda>k. 3 / 5"
         and model = 0 and g = 0, THEN conjunct2] h
    by (rule mp)
  then obtain s' where r: "training_loop counting_torch still_solver (\<lambda>k. 3 / 5) 0 0 = Inr s'" ..
  have c: "(\<exists>ss. length ss = 2001 \<and>
         ss ! 0 = \<lparr>net = 0, running_loss = 0, generator = 0, events = []\<rparr> \<and>
         ss ! 2000 = s' \<and>
         (\<forall>k < 2000. \<exists>a ic tr loss b c v.
            zero_grad counting_torch (net (ss ! k)) = Inr a \<and>
            get_minibatch still_solver (\<lambda>k. 3 / 5) 20 (generator (ss ! k))
              = Inr ((ic, tr), generator (ss ! Suc k)) \<and>
            generator (ss ! k) = 0 + 40 * k \<and>
            run_model counting_torch a ic tr = Inr (loss, b) \<and>
            backward counting_torch loss b = Inr c \<and>
            item counting_torch loss = Inr v \<and>
            optimizer_step counting_torch c = Inr (net (ss ! Suc k)) \<and>
            running_loss (ss ! Suc k) = 0.9 * running_loss (ss ! k) + 0.1 * v)) \<and>
      filter (\<lambda>e. \<not> is_print e) (events s') = concat (replicate 2000 iteration_events) \<and>
      count_list (events s') (GetMinibatch 20) = 2000 \<and>
      count_list (events s') OptimizerStep = 2000 \<and>
      generator s' = 0 + 2000 * (20 * 2)"
    using training_loop_runs_2000_iterations
      [where lib = counting_torch and solve_ivp = still_solver and u = "\<lambda>k. 3 / 5"
         and model = 0 and g = 0 and s' = s', THEN conjunct1] r
    by (rule mp)
  then obtain ss where
    ss: "ss ! 0 = \<lparr>net = 0, running_loss = 0, generator = 0, events = []\<rparr>" "ss ! 2000 = s'" and
    st: "\<forall>k < 2000. \<exists>a ic tr loss b c v.
            zero_grad counting_torch (net (ss ! k)) = Inr a \<and>
            get_minibatch still_solver (\<lambda>k. 3 / 5) 20 (generator (ss ! k))
              = Inr ((ic, tr), generator (ss ! Suc k)) \<and>
            generator (ss ! k) = 0 + 40 * k \<and>
            run_model counting_torch a ic tr = Inr (loss, b) \<and>
            backward counting_torch loss b = Inr c \<and>
            item counting_torch loss = Inr v \<and>
            optimizer_step counting_torch c = Inr (net (ss ! Suc k)) \<and>
            running_loss (ss ! Suc k) = 0.9 * running_loss (ss ! k) + 0.1 * v"
    by blast
  have steps: "net (ss ! k) = k" if "k \<le> 2000" for k
    using that
  proof (induction k)
    case 0
    show ?case using ss(1) by simp
  next
    case (Suc k)
    then have "k < 2000" by simp
    with st obtain a ic tr loss b c where
      "zero_grad counting_torch (net (ss ! k)) = Inr a"
      "run_model counting_torch a ic tr = Inr (loss, b)"
      "backward counting_torch loss b = Inr c"
      "optimizer_step counting_torch c = Inr (net (ss ! Suc k))"
      by blast
    then have "net (ss ! Suc k) = Suc (net (ss ! k))"
      by (auto simp: counting_torch_def)
    with Suc show ?case by simp
  qed
  from steps [of 2000] ss(2) have "net s' = 2000" by simp
  with r c show ?thesis by auto
qed

subsection \<open>Errors\<close>

lemma training_for_append:
  "training_for lib solve_ivp u (xs @ ys) s =
     bind (training_for lib solve_ivp u xs s) (training_for lib solve_ivp u ys)"
proof (induction xs arbitrary: s)
  case Nil
  show ?case by simp
next
  case (Cons x xs)
  show ?case
    by (cases "training_step lib solve_ivp u x s") (simp_all add: Cons.IH)
qed

lemma training_for_Inl:
  "training_for lib solve_ivp u xs s0 = Inl e \<longleftrightarrow>
     (\<exists>ys x zs s1. xs = ys @ x # zs \<and> training_for lib solve_ivp u ys s0 = Inr s1 \<and>
        training_step lib solve_ivp u x s1 = Inl e)"
proof
  show "training_for lib solve_ivp u xs s0 = Inl e \<Longrightarrow>
     \<exists>ys x zs s1. xs = ys @ x # zs \<and> training_for lib solve_ivp u ys s0 = Inr s1 \<and>
        training_step lib solve_ivp u x s1 = Inl e"
  proof (induction xs arbitrary: s0)
    case Nil
    then show ?case by simp
  next
    case (Cons x xs)
    show ?case
    proof (cases "training_step lib solve_ivp u x s0")
      case (Inl e')
      with Cons.prems have "e' = e" by simp
      with Inl have "x # xs = [] @ x # xs \<and> training_for lib solve_ivp u [] s0 = Inr s0 \<and>
        training_step lib solve_ivp u x s0 = Inl e" by simp
      then show ?thesis by blast
    next
      case (Inr s1)
      with Cons.prems have "training_for lib solve_ivp u xs s1 = Inl e" by simp
      from Cons.IH [OF this] obtain ys y zs s2 where
        "xs = ys @ y # zs" "training_for lib solve_ivp u ys s1 = Inr s2"
        "training_step lib solve_ivp u y s2 = Inl e" by blast
      with Inr have "x # xs = (x # ys) @ y # zs \<and> training_for lib solve_ivp u (x # ys) s0 = Inr s2 \<and>
        training_step lib solve_ivp u y s2 = Inl e" by simp
      then show ?thesis by blast
    qed
  qed
next
  assume "\<exists>ys x zs s1. xs = ys @ x # zs \<and> training_for lib solve_ivp u ys s0 = Inr s1 \<and>
        training_step lib solve_ivp u x s1 = Inl e"
  then show "training_for lib solve_ivp u xs s0 = Inl e"
    by (auto simp: training_for_append)
qed

lemma training_step_Inl:
  "training_step lib solve_ivp u sample s = Inl e \<longleftrightarrow>
     zero_grad lib (net s) = Inl e \<or>
     (\<exists>m1. zero_grad lib (net s) = Inr m1 \<and>
        (get_minibatch solve_ivp u 20 (generator s) = Inl e \<or>
         (\<exists>ic tr g'. get_minibatch solve_ivp u 20 (generator s) = Inr ((ic, tr), g') \<and>
            (run_model lib m1 ic tr = Inl e \<or>
             (\<exists>loss m2. run_model lib m1 ic tr = Inr (loss, m2) \<and>
                (backward lib loss m2 = Inl e \<or>
                 (\<exists>m3. backward lib loss m2 = Inr m3 \<and>
                    (item lib loss = Inl e \<or>
                     (\<exists>v. item lib loss = Inr v \<and> optimizer_step lib m3 = Inl e)))))))))"
  by (auto simp: training_step_def bind_def Let_def split: sum.splits)

lemma minibatch_loop_add:
  "minibatch_loop solve_ivp u (k + j) (ins, trs, g) =
     bind (minibatch_loop solve_ivp u k (ins, trs, g)) (minibatch_loop solve_ivp u j)"
proof (induction k arbitrary: ins trs g)
  case 0
  show ?case by simp
next
  case (Suc k)
  show ?case
    by (auto simp: bind_def Let_def Suc.IH split: sum.splits)
qed

lemma minibatch_loop_Inl:
  "minibatch_loop solve_ivp u k (ins, trs, g) = Inl e \<Longrightarrow>
     \<exists>j ins1 trs1 g1. j < k \<and> minibatch_loop solve_ivp u j (ins, trs, g) = Inr (ins1, trs1, g1) \<and>
        get_random_trajectory solve_ivp u g1 = Inl e"
proof (induction k arbitrary: ins trs g)
  case 0
  then show ?case by simp
next
  case (Suc k)
  show ?case
  proof (cases "get_random_trajectory solve_ivp u g")
    case (Inl e')
    with Suc.prems have "e' = e" by simp
    with Inl have "0 < Suc k \<and> minibatch_loop solve_ivp u 0 (ins, trs, g) = Inr (ins, trs, g) \<and>
        get_random_trajectory solve_ivp u g = Inl e" by simp
    then show ?thesis by blast
  next
    case (Inr r)
    then obtain tr g1 where t: "get_random_trajectory solve_ivp u g = Inr (tr, g1)"
      by (cases r) auto
    then obtain v0 v1 where tr: "tr = [v0, v1]" "length v0 = 21" "length v1 = 21"
      by (auto dest: get_random_trajectory_rows)
    from loop_body_ok [OF tr(2,3)] obtain x0 inp where
      b: "get_column [v0, v1] 0 = Inr x0" "set_column (zeros_like [v0, v1]) 0 x0 = Inr inp" by blast
    from Suc.prems t tr b have
      "minibatch_loop solve_ivp u k (ins @ [transpose inp], trs @ [transpose tr], g1) = Inl e"
      by simp
    from Suc.IH [OF this] obtain j ins1 trs1 g2 where
      j: "j < k" "minibatch_loop solve_ivp u j (ins @ [transpose inp], trs @ [transpose tr], g1)
           = Inr (ins1, trs1, g2)" "get_random_trajectory solve_ivp u g2 = Inl e" by blast
    with t tr b have "Suc j < Suc k \<and> minibatch_loop solve_ivp u (Suc j) (ins, trs, g) = Inr (ins1, trs1, g2)
       \<and> get_random_trajectory solve_ivp u g2 = Inl e" by simp
    then show ?thesis by blast
  qed
qed

lemma get_minibatch_Inl:
  "get_minibatch solve_ivp u n g = Inl e \<longleftrightarrow>
     (n \<le> 0 \<and> e = AxisError) \<or>
     (\<exists>k ins trs g1. int k < n \<and> minibatch_loop solve_ivp u k ([], [], g) = Inr (ins, trs, g1) \<and>
        get_random_trajectory solve_ivp u g1 = Inl e)"
proof
  assume a: "get_minibatch solve_ivp u n g = Inl e"
  show "(n \<le> 0 \<and> e = AxisError) \<or>
     (\<exists>k ins trs g1. int k < n \<and> minibatch_loop solve_ivp u k ([], [], g) = Inr (ins, trs, g1) \<and>
        get_random_trajectory solve_ivp u g1 = Inl e)"
  proof (cases "n \<le> 0")
    case True
    with a get_minibatch_empty [OF True, of solve_ivp u g] show ?thesis by simp
  next
    case False
    then have n: "1 \<le> n" by simp
    show ?thesis
    proof (cases "minibatch_loop solve_ivp u (nat n) ([], [], g)")
      case (Inl e')
      with a have "e' = e" by (simp add: get_minibatch_def)
      with Inl minibatch_loop_Inl [of solve_ivp u "nat n" "[]" "[]" g e]
      obtain j ins1 trs1 g1 where "j < nat n"
        "minibatch_loop solve_ivp u j ([], [], g) = Inr (ins1, trs1, g1)"
        "get_random_trajectory solve_ivp u g1 = Inl e" by blast
      moreover from this(1) have "int j < n" by simp
      ultimately show ?thesis by blast
    next
      case (Inr r)
      then obtain ins trs g2 where "minibatch_loop solve_ivp u (nat n) ([], [], g) = Inr (ins, trs, g2)"
        by (cases r) auto
      from get_minibatch_run [OF n this] obtain I Tr g2 where
        "get_minibatch solve_ivp u n g = Inr ((Arr3 I, Arr3 Tr), g2)" by blast
      with a show ?thesis by simp
    qed
  qed
next
  assume "(n \<le> 0 \<and> e = AxisError) \<or>
     (\<exists>k ins trs g1. int k < n \<and> minibatch_loop solve_ivp u k ([], [], g) = Inr (ins, trs, g1) \<and>
        get_random_trajectory solve_ivp u g1 = Inl e)"
  then show "get_minibatch solve_ivp u n g = Inl e"
  proof
    assume "n \<le> 0 \<and> e = AxisError"
    then show ?thesis by (simp add: get_minibatch_empty)
  next
    assume "\<exists>k ins trs g1. int k < n \<and> minibatch_loop solve_ivp u k ([], [], g) = Inr (ins, trs, g1) \<and>
        get_random_trajectory solve_ivp u g1 = Inl e"
    then obtain k ins trs g1 where k: "int k < n"
      and l: "minibatch_loop solve_ivp u k ([], [], g) = Inr (ins, trs, g1)"
      and t: "get_random_trajectory solve_ivp u g1 = Inl e" by blast
    from k have "k < nat n" by simp
    then obtain d where "nat n = Suc (k + d)"
      unfolding less_iff_Suc_add by blast
    then have d: "nat n = k + Suc d" by simp
    have "minibatch_loop solve_ivp u (nat n) ([], [], g) = Inl e"
      unfolding d minibatch_loop_add l using t by simp
    then show ?thesis by (simp add: get_minibatch_def)
  qed
qed

lemma van_der_pol_dynamics_Inl:
  "van_der_pol_dynamics t x = Inl e \<longleftrightarrow> length x < 2 \<and> e = IndexError"
  by (auto simp: van_der_pol_dynamics_def getitem_def bind_def split: sum.splits if_splits)

lemma get_random_trajectory_Inl:
  "get_random_trajectory solve_ivp u g = Inl e \<longleftrightarrow>
     solve_ivp van_der_pol_dynamics (0, 2) (initial_state u g) 0.1 = Inl e \<or>
     (\<exists>sol. solve_ivp van_der_pol_dynamics (0, 2) (initial_state u g) 0.1 = Inr sol \<and>
        resample sol = Inl e)"
  unfolding get_random_trajectory_eq resampled_solution_def
  by (auto simp: bind_def split: sum.splits)

lemma plot_flow_field_Inl:
  "plot_flow_field plt p = Inl e \<longleftrightarrow>
     figure plt (4, 4) p = Inl e \<or>
     (\<exists>p' X1 X2 dx1 dx2. figure plt (4, 4) p = Inr p' \<and> flow_field = Inr (X1, X2, dx1, dx2) \<and>
        streamplot plt X1 X2 dx1 dx2 1 p' = Inl e)"
  unfolding plot_flow_field_def flow_field_eq
  by (auto simp: bind_def split: sum.splits)

text \<open>
  C6. No operation catches, retries or recovers. An operation raises \<open>e\<close> exactly when
  one of the calls it has reached raises \<open>e\<close>: \<open>van_der_pol_dynamics\<close> only through an
  index out of range, \<open>plot_flow_field\<close> through the plotting calls,
  \<open>get_random_trajectory\<close> through the solver or the resampling, \<open>get_minibatch\<close>
  through one of its trajectories (or \<open>swapaxes\<close> on an empty batch), an iteration
  of the training loop through one of its six calls, and the loop through its first
  failing iteration.
\<close>

theorem library_errors_propagate_unchanged:
  "(van_der_pol_dynamics t x = Inl e1 \<longleftrightarrow> length x < 2 \<and> e1 = IndexError) \<and>
   (plot_flow_field plt p = Inl e2 \<longleftrightarrow>
      figure plt (4, 4) p = Inl e2 \<or>
      (\<exists>p' X1 X2 dx1 dx2. figure plt (4, 4) p = Inr p' \<and> flow_field = Inr (X1, X2, dx1, dx2) \<and>
         streamplot plt X1 X2 dx1 dx2 1 p' = Inl e2)) \<and>
   (get_random_trajectory solve_ivp u g = Inl e3 \<longleftrightarrow>
      solve_ivp van_der_pol_dynamics (0, 2) (initial_state u g) 0.1 = Inl e3 \<or>
      (\<exists>sol. solve_ivp van_der_pol_dynamics (0, 2) (initial_state u g) 0.1 = Inr sol \<and>
         resample sol = Inl e3)) \<and>
   (get_minibatch solve_ivp u n g = Inl e4 \<longleftrightarrow>
      (n \<le> 0 \<and> e4 = AxisError) \<or>
      (\<exists>k ins trs g1. int k < n \<and>
         minibatch_loop solve_ivp u k ([], [], g) = Inr (ins, trs, g1) \<and>
         get_random_trajectory solve_ivp u g1 = Inl e4)) \<and>
   (training_step lib solve_ivp u sample s = Inl e5 \<longleftrightarrow>
      zero_grad lib (net s) = Inl e5 \<or>
      (\<exists>m1. zero_grad lib (net s) = Inr m1 \<and>
         (get_minibatch solve_ivp u 20 (generator s) = Inl e5 \<or>
          (\<exists>ic tr g'. get_minibatch solve_ivp u 20 (generator s) = Inr ((ic, tr), g') \<and>
             (run_model lib m1 ic tr = Inl e5 \<or>
              (\<exists>loss m2. run_model lib m1 ic tr = Inr (loss, m2) \<and>
                 (backward lib loss m2 = Inl e5 \<or>
                  (\<exists>m3. backward lib loss m2 = Inr m3 \<and>
                     (item lib loss = Inl e5 \<or>
                      (\<exists>v. item lib loss = Inr v \<and> optimizer_step lib m3 = Inl e5)))))))))) \<and>
   (training_loop lib solve_ivp u model g = Inl e6 \<longleftrightarrow>
      (\<exists>ys sample zs s1. [0..<2000] = ys @ sample # zs \<and>
         training_for lib solve_ivp u ys
           \<lparr>net = model, running_loss = 0, generator = g, events = []\<rparr> = Inr s1 \<and>
         training_step lib solve_ivp u sample s1 = Inl e6))"
  unfolding training_loop_def
  by (intro conjI van_der_pol_dynamics_Inl plot_flow_field_Inl get_random_trajectory_Inl
        get_minibatch_Inl training_step_Inl training_for_Inl)

theorem library_errors_propagate_unchanged_witness:
  "van_der_pol_dynamics 0 [1] = Inl IndexError \<and>
   plot_flow_field \<lparr>figure = (\<lambda>sz p. Inl (LibraryError 6)), streamplot = (\<lambda>a b c d k p. Inr p)\<rparr> (0 :: nat)
     = Inl (LibraryError 6) \<and>
   get_random_trajectory failing_solver (\<lambda>k. 3 / 5) 0 = Inl (LibraryError 5) \<and>
   get_minibatch failing_solver (\<lambda>k. 3 / 5) 20 0 = Inl (LibraryError 5) \<and>
   training_step (failing_torch 0) still_solver (\<lambda>k. 3 / 5) 0
     \<lparr>net = 0, running_loss = 0, generator = 0, events = []\<rparr> = Inl (LibraryError 0) \<and>
   training_loop (failing_torch 0) still_solver (\<lambda>k. 3 / 5) 0 0 = Inl (LibraryError 0)"
proof -
  let ?plt = "\<lparr>figure = (\<lambda>sz p. Inl (LibraryError 6)), streamplot = (\<lambda>a b c d k p. Inr p)\<rparr>
                :: nat pyplot"
  let ?u = "\<lambda>k :: nat. 3 / 5 :: real"
  let ?s0 = "\<lparr>net = 0 :: nat, running_loss = 0, generator = 0, events = []\<rparr>"
  note t = library_errors_propagate_unchanged
  have 1: "van_der_pol_dynamics 0 [1] = Inl IndexError"
    using t [where t = 0 and x = "[1]" and ?e1.0 = IndexError, THEN conjunct1] by simp
  have 2: "plot_flow_field ?plt (0 :: nat) = Inl (LibraryError 6)"
    using t [where plt = ?plt and p = "0 :: nat" and ?e2.0 = "LibraryError 6",
        THEN conjunct2, THEN conjunct1]
    by simp
  have 3: "get_random_trajectory failing_solver ?u 0 = Inl (LibraryError 5)"
    using t [where solve_ivp = failing_solver and u = ?u and g = 0 and ?e3.0 = "LibraryError 5",
        THEN conjunct2, THEN conjunct2, THEN conjunct1]
    by (simp add: failing_solver_def)
  have "(20 :: int) \<le> 0 \<and> LibraryError 5 = AxisError \<or>
      (\<exists>k ins trs g1. int k < 20 \<and>
         minibatch_loop failing_solver ?u k ([], [], 0) = Inr (ins, trs, g1) \<and>
         get_random_trajectory failing_solver ?u g1 = Inl (LibraryError 5))"
    using 3 by (intro disjI2 exI [of _ 0] exI [of _ "[]"]) simp
  then have 4: "get_minibatch failing_solver ?u 20 0 = Inl (LibraryError 5)"
    using t [where solve_ivp = failing_solver and u = ?u and g = 0 and n = 20
        and ?e4.0 = "LibraryError 5",
        THEN conjunct2, THEN conjunct2, THEN conjunct2, THEN conjunct1]
    by simp
  have 5: "training_step (failing_torch 0) still_solver ?u 0 ?s0 = Inl (LibraryError 0)"
    using t [where lib = "failing_torch 0" and solve_ivp = still_solver and u = ?u and sample = 0
        and s = ?s0 and ?e5.0 = "LibraryError 0",
        THEN conjunct2, THEN conjunct2, THEN conjunct2, THEN conjunct2, THEN conjunct1]
    by (simp add: failing_torch_def)
  have "\<exists>ys sample zs s1. [0..<2000] = ys @ sample # zs \<and>
         training_for (failing_torch 0) still_solver ?u ys ?s0 = Inr s1 \<and>
         training_step (failing_torch 0) still_solver ?u sample s1 = Inl (LibraryError 0)"
    using 5
    by (intro exI [of _ "[]"] exI [of _ 0] exI [of _ "[1..<2000]"] exI [of _ ?s0])
       (simp add: upt_rec [of 0 2000])
  then have 6: "training_loop (failing_torch 0) still_solver ?u 0 0 = Inl (LibraryError 0)"
    using t [where lib = "failing_torch 0" and solve_ivp = still_solver and u = ?u
        and model = 0 and g = 0 and ?e6.0 = "LibraryError 0",
        THEN conjunct2, THEN conjunct2, THEN conjunct2, THEN conjunct2, THEN conjunct2]
    by simp
  from 1 2 3 4 5 6 show ?thesis by simp
qed

subsection \<open>The network\<close>

lemma collect_map_Inr: "collect (map Inr xs) = Inr xs"
  by (induction xs) simp_all

lemma collect_map:
  assumes "\<forall>x \<in> set xs. f x = Inr (g x)"
  shows "collect (map f xs) = Inr (map g xs)"
  using assms by (induction xs) simp_all

lemma length_lstm_unroll [simp]: "length (lstm_unroll c hc xs) = length xs"
  by (induction xs arbitrary: hc) (simp_all add: Let_def)

lemma lstm_unroll_hidden:
  assumes "\<forall>x hc. length (fst (c x hc)) = k" "t < length xs"
  shows "length (lstm_unroll c hc xs ! t) = k"
  using assms(2)
proof (induction xs arbitrary: hc t)
  case Nil
  then show ?case by simp
next
  case (Cons x xs)
  then show ?case using assms(1) by (cases t; cases hc) (simp_all add: Let_def)
qed

lemma examples_of:
  assumes "1 \<le> K" "length input = K" "\<forall>step \<in> set input. length step = n"
  shows "transpose input = map (\<lambda>i. map (\<lambda>step. step ! i) input) [0..<n]"
proof -
  have "transpose input = map (\<lambda>i. map (\<lambda>t. input ! t ! i) [0..<length input]) [0..<n]"
    by (rule transpose_rectangle) (use assms in auto)
  moreover have "map (\<lambda>t. input ! t ! i) [0..<length input] = map (\<lambda>step. step ! i) input" for i
    by (rule nth_equalityI) simp_all
  ultimately show ?thesis by simp
qed

lemma lstm_forward_eq:
  assumes "1 \<le> K" "1 \<le> n" "length input = K" "\<forall>step \<in> set input. length step = n"
  shows "lstm_forward L input =
     map (\<lambda>t. map (\<lambda>i. lstm_unroll (cell L) (replicate (hidden_size L) 0, replicate (hidden_size L) 0)
                        (map (\<lambda>step. step ! i) input) ! t) [0..<n]) [0..<K]"
proof -
  let ?H = "map (lstm_unroll (cell L) (replicate (hidden_size L) 0, replicate (hidden_size L) 0))
              (map (\<lambda>i. map (\<lambda>step. step ! i) input) [0..<n])"
  have "transpose ?H = map (\<lambda>t. map (\<lambda>i. ?H ! i ! t) [0..<length ?H]) [0..<K]"
    by (rule transpose_rectangle) (use assms in auto)
  then show ?thesis
    using assms by (simp add: lstm_forward_def Let_def examples_of [OF assms(1,3,4)])
qed

text \<open>
  C4. The network of class \<open>LSTMNetwork\<close> has two layers, the recurrent LSTM layer and
  the linear layer that decodes the two-dimensional state from the hidden variables:
  for an input sequence of \<open>K\<close> steps and \<open>n\<close> examples, \<open>forward\<close> returns \<open>K\<close> steps of
  \<open>n\<close> two-element vectors, and the vector of example \<open>i\<close> at step \<open>t\<close> is the linear
  layer applied to the hidden vector that the recurrent layer reaches at step \<open>t\<close> on
  the input sequence of example \<open>i\<close>.
\<close>

theorem forward_decodes_hidden:
  assumes "1 \<le> K" "1 \<le> n" "length input = K" "\<forall>step \<in> set input. length step = n"
    and c: "\<forall>x hc. length (fst (cell (lstm self) x hc)) = hidden_size (lstm self)"
    and w: "length (weight (linear_out self)) = 2" "length (bias (linear_out self)) = 2"
      "\<forall>row \<in> set (weight (linear_out self)). length row = hidden_size (lstm self)"
  shows "\<exists>out. forward self input = Inr out \<and> length out = K \<and>
     (\<forall>t < K. length (out ! t) = n \<and>
        (\<forall>i < n. length (out ! t ! i) = 2 \<and>
           linear_forward (linear_out self)
             (lstm_unroll (cell (lstm self))
                (replicate (hidden_size (lstm self)) 0, replicate (hidden_size (lstm self)) 0)
                (map (\<lambda>step. step ! i) input) ! t) = Inr (out ! t ! i)))"
proof -
  let ?hid = "\<lambda>t i. lstm_unroll (cell (lstm self))
                (replicate (hidden_size (lstm self)) 0, replicate (hidden_size (lstm self)) 0)
                (map (\<lambda>step. step ! i) input) ! t"
  let ?lin = "\<lambda>h. map2 (\<lambda>row b. sum_list (map2 (*) row h) + b) (weight (linear_out self)) (bias (linear_out self))"
  have len: "length (?hid t i) = hidden_size (lstm self)" if "t < K" for t i
    using that assms(3) by (intro lstm_unroll_hidden c) simp
  have lf: "linear_forward (linear_out self) (?hid t i) = Inr (?lin (?hid t i))" if "t < K" for t i
    using len [OF that] w by (simp add: linear_forward_def)
  have row: "collect (map (linear_forward (linear_out self)) (map (\<lambda>i. ?hid t i) [0..<n])) =
      Inr (map (\<lambda>i. ?lin (?hid t i)) [0..<n])" if "t < K" for t
    using lf [OF that] by (simp add: comp_def collect_map_Inr [symmetric] del: collect_map_Inr)
  let ?out = "map (\<lambda>t. map (\<lambda>i. ?lin (?hid t i)) [0..<n]) [0..<K]"
  have "collect (map (\<lambda>t. collect (map (linear_forward (linear_out self)) (map (\<lambda>i. ?hid t i) [0..<n])))
          [0..<K]) = Inr ?out"
    by (rule collect_map) (use row in simp)
  then have "forward self input = Inr ?out"
    unfolding forward_def Let_def lstm_forward_eq [OF assms(1-4)] map_map comp_def .
  moreover have "length ?out = K" by simp
  moreover have "\<forall>t < K. length (?out ! t) = n \<and>
        (\<forall>i < n. length (?out ! t ! i) = 2 \<and> linear_forward (linear_out self) (?hid t i) = Inr (?out ! t ! i))"
    using lf w by simp
  ultimately show ?thesis by blast
qed

theorem forward_decodes_hidden_witness:
  "\<exists>out. forward adding_network [[[1, 2]], [[0, 0]]] = Inr out \<and> length out = 2 \<and>
     length (out ! 1) = 1 \<and> out ! 1 ! 0 = [3, 6]"
proof -
  let ?input = "[[[1, 2]], [[0, 0]]] :: real list list list"
  have h: "(1 :: nat) \<le> 2" "(1 :: nat) \<le> 1" "length ?input = 2"
    "\<forall>step \<in> set ?input. length step = 1"
    "\<forall>x hc. length (fst (cell (lstm adding_network) x hc)) = hidden_size (lstm adding_network)"
    "length (weight (linear_out adding_network)) = 2" "length (bias (linear_out adding_network)) = 2"
    "\<forall>row \<in> set (weight (linear_out adding_network)). length row = hidden_size (lstm adding_network)"
    by (simp_all add: adding_network_def)
  from forward_decodes_hidden [OF h] obtain out where
    o: "forward adding_network ?input = Inr out" "length out = 2" and
    a: "\<forall>t < 2. length (out ! t) = 1 \<and>
        (\<forall>i < 1. length (out ! t ! i) = 2 \<and>
           linear_forward (linear_out adding_network)
             (lstm_unroll (cell (lstm adding_network))
                (replicate (hidden_size (lstm adding_network)) 0,
                 replicate (hidden_size (lstm adding_network)) 0)
                (map (\<lambda>step. step ! i) ?input) ! t) = Inr (out ! t ! i))"
    by blast
  from a have "length (out ! 1) = 1" and
    "linear_forward (linear_out adding_network)
       (lstm_unroll (cell (lstm adding_network))
          (replicate (hidden_size (lstm adding_network)) 0,
           replicate (hidden_size (lstm adding_network)) 0)
          (map (\<lambda>step. step ! 0) ?input) ! 1) = Inr (out ! 1 ! 0)"
    by simp_all
  then have "length (out ! 1) = 1 \<and> out ! 1 ! 0 = [3, 6]"
    by (simp add: adding_network_def linear_forward_def Let_def)
  with o show ?thesis by blast
qed

end
